theory Spec2Isabelle
  imports Complex_Main "HOL-Library.AList"
begin

section \<open>Script values\<close>

text \<open>
  The values the scripting bridge exchanges with level scripts (mruby's \<^verbatim>\<open>mrb_value\<close>).
  Immediate values and strings are modelled by their content, arrays and hashes by
  their elements in insertion order, every other object by a reference into the
  interpreter's heap, and a class or module by its full name. A floating-point number
  is the real number it stands for; infinities and NaN are not values of the model.
\<close>

datatype mrb_value =
    Nil
  | FalseV
  | TrueV
  | Fixnum int
  | Float real
  | Str string
  | Sym string
  | Ary "mrb_value list"
  | Hash "(mrb_value \<times> mrb_value) list"
  | ObjRef nat
  | ClassV string
  | ModuleV string

text \<open>The exceptions of the script runtime that the modelled calls can raise.\<close>

datatype mrb_exc = TypeError | NameError | NoMethodError | ArgumentError

text \<open>\<^verbatim>\<open>mrb_test\<close>, the truth test of the runtime: only nil and false are falsy.\<close>

fun mrb_test :: "mrb_value \<Rightarrow> bool" where
  "mrb_test Nil = False"
| "mrb_test FalseV = False"
| "mrb_test _ = True"

text \<open>The splat operator \<^verbatim>\<open>*v\<close> in an argument list.\<close>

fun splat :: "mrb_value \<Rightarrow> mrb_value list" where
  "splat (Ary xs) = xs"
| "splat Nil = []"
| "splat v = [v]"


text \<open>
  A C++ string handed over as \<^verbatim>\<open>const char*\<close> (\<^verbatim>\<open>c_str()\<close> into
  \<^verbatim>\<open>mrb_str_new_cstr\<close>, or a script string into a \<^verbatim>\<open>std::string\<close> parameter) ends
  at its first NUL character.
\<close>

definition c_str :: "string \<Rightarrow> string" where
  "c_str s = takeWhile (\<lambda>c. c \<noteq> CHR 0x00) s"

section \<open>The Std::Enable mixin (01\_enable.rb)\<close>

text \<open>
  \<^verbatim>\<open>Std::Enable\<close> is included into \<^verbatim>\<open>Sprite\<close>. Its two methods call four native
  methods of the sprite (\<^verbatim>\<open>start_pos\<close>, \<^verbatim>\<open>warp\<close>, \<^verbatim>\<open>start_at\<close> and
  \<^verbatim>\<open>massive_type=\<close>), which are implemented elsewhere; they are parameters here,
  together with the two observations the properties speak about. A native method
  either raises, leaving the native sprite as it was, or returns the updated native
  sprite.
\<close>

record ('n, 'p, 'm) sprite_api =
  start_pos :: "'n \<Rightarrow> mrb_value"
  warp :: "'n \<Rightarrow> int \<Rightarrow> int \<Rightarrow> mrb_exc + 'n"
  start_at :: "'n \<Rightarrow> mrb_value list \<Rightarrow> mrb_exc + 'n"
  set_massive_type :: "'n \<Rightarrow> mrb_value \<Rightarrow> mrb_exc + 'n"
  position :: "'n \<Rightarrow> 'p"
  massive_type :: "'n \<Rightarrow> 'm"

text \<open>
  A script-side sprite: the native sprite and the instance variable \<^verbatim>\<open>@old_pos\<close>,
  which reads as nil until \<^verbatim>\<open>disable\<close> assigns it.
\<close>

record 'n sprite =
  native :: 'n
  old_pos :: mrb_value

definition new_sprite :: "'n \<Rightarrow> 'n sprite" where
  "new_sprite n = \<lparr>native = n, old_pos = Nil\<rparr>"

text \<open>
  \<^verbatim>\<open>
  def disable
    @old_pos = start_pos
    warp(-100, 100)
  end
  \<close>
\<close>

text \<open>
  A method call ends with the exception it raised, if any, and the sprite as the call
  left it.
\<close>

type_synonym 'n sprite_result = "mrb_exc option \<times> 'n sprite"

definition disable :: "('n, 'p, 'm) sprite_api \<Rightarrow> 'n sprite \<Rightarrow> 'n sprite_result" where
  "disable api s =
     (let s1 = s\<lparr>old_pos := start_pos api (native s)\<rparr>
      in case warp api (native s1) (- 100) 100 of
           Inl e \<Rightarrow> (Some e, s1)
         | Inr n \<Rightarrow> (None, s1\<lparr>native := n\<rparr>))"

text \<open>
  \<^verbatim>\<open>
  def enable(mass = nil)
    start_at(*@old_pos) if @old_pos
    self.massive_type = mass if mass
  end
  \<close>
\<close>

definition enable :: "('n, 'p, 'm) sprite_api \<Rightarrow> 'n sprite \<Rightarrow> mrb_value \<Rightarrow> 'n sprite_result" where
  "enable api s mass =
     (case (if mrb_test (old_pos s) then start_at api (native s) (splat (old_pos s))
            else Inr (native s)) of
        Inl e \<Rightarrow> (Some e, s)
      | Inr n1 \<Rightarrow>
          (case (if mrb_test mass then set_massive_type api n1 mass else Inr n1) of
             Inl e \<Rightarrow> (Some e, s\<lparr>native := n1\<rparr>)
           | Inr n2 \<Rightarrow> (None, s\<lparr>native := n2\<rparr>)))"

text \<open>
  A plain native sprite for running the mixin on concrete inputs: a position, a start
  position and a massive type, with setters that touch their own fields only.
\<close>

record cSprite =
  m_pos :: "int \<times> int"
  m_start_pos :: "int \<times> int"
  m_massive_type :: string

fun cSprite_start_at :: "cSprite \<Rightarrow> mrb_value list \<Rightarrow> mrb_exc + cSprite" where
  "cSprite_start_at n [Fixnum x, Fixnum y] = Inr (n\<lparr>m_pos := (x, y), m_start_pos := (x, y)\<rparr>)"
| "cSprite_start_at n _ = Inl ArgumentError"

fun cSprite_set_massive_type :: "cSprite \<Rightarrow> mrb_value \<Rightarrow> mrb_exc + cSprite" where
  "cSprite_set_massive_type n (Sym t) = Inr (n\<lparr>m_massive_type := t\<rparr>)"
| "cSprite_set_massive_type n _ = Inl TypeError"

definition cSprite_api :: "(cSprite, int \<times> int, string) sprite_api" where
  "cSprite_api =
     \<lparr>start_pos = (\<lambda>n. Ary [Fixnum (fst (m_start_pos n)), Fixnum (snd (m_start_pos n))]),
      warp = (\<lambda>n x y. Inr (n\<lparr>m_pos := (x, y)\<rparr>)),
      start_at = cSprite_start_at,
      set_massive_type = cSprite_set_massive_type,
      position = m_pos,
      massive_type = m_massive_type\<rparr>"

text \<open>A sprite that was never disabled, and the same sprite after \<^verbatim>\<open>disable\<close>.\<close>

definition sprite_at_rest :: "cSprite sprite" where
  "sprite_at_rest =
     new_sprite \<lparr>m_pos = (3, 4), m_start_pos = (3, 4), m_massive_type = ''massive''\<rparr>"

definition sprite_disabled :: "cSprite sprite" where
  "sprite_disabled =
     \<lparr>native = \<lparr>m_pos = (- 100, 100), m_start_pos = (3, 4), m_massive_type = ''massive''\<rparr>,
      old_pos = Ary [Fixnum 3, Fixnum 4]\<rparr>"

section \<open>The interpreter state\<close>

text \<open>
  The part of an \<^verbatim>\<open>mrb_state\<close> that the bridge code reads and writes: the classes and
  modules with their constants and method tables, and the heap of objects. An object's
  address is its index in the heap; objects are only ever added. \<^verbatim>\<open>Object\<close> is the
  class whose constants are the global ones.
\<close>

text \<open>The C functions that mrb\_level.cpp binds to method names.\<close>

datatype cfunc =
    F_Get_Author
  | F_Get_Description
  | F_Get_Difficulty
  | F_Get_Engine_Version
  | F_Get_Filename
  | F_Get_Music_Filename
  | F_Get_Script
  | F_Get_Next_Level_Filename
  | F_Finish
  | F_Display_Info_Message
  | F_Push_Return
  | F_Pop_Return
  | F_Clear_Return
  | F_Get_Return_Stack
  | F_Get_Boundaries
  | F_Get_Start_Position
  | F_Get_Fixed_Hor_Vel
  | F_Event_Handler_load
  | F_Event_Handler_save
  | F_SE_Initialize
  | F_SE_Get_Level
  | F_SE_Get_Entry

text \<open>
  An object: its class, its instance variables, the native pointer of a data object,
  and, for an instance of a class whose initializer is defined outside mrb\_level.cpp,
  the arguments it was made from.
\<close>

record robject =
  obj_class :: string
  obj_iv :: "(string \<times> mrb_value) list"
  obj_data :: "nat option"
  obj_args :: "mrb_value list"

record rclass =
  c_consts :: "(string \<times> mrb_value) list"
  c_methods :: "(string \<times> cfunc) list"
  c_undef_class_methods :: "string list"
  c_included :: "string list"

record mrb_state =
  classes :: "(string \<times> rclass) list"
  heap :: "robject list"

definition empty_class :: rclass where
  "empty_class = \<lparr>c_consts = [], c_methods = [], c_undef_class_methods = [], c_included = []\<rparr>"

text \<open>Running a step that may raise, then the next one on its result.\<close>

definition and_then :: "'e + 'a \<Rightarrow> ('a \<Rightarrow> 'e + 'b) \<Rightarrow> 'e + 'b" where
  "and_then r f = (case r of Inl e \<Rightarrow> Inl e | Inr x \<Rightarrow> f x)"

text \<open>
  \<^verbatim>\<open>mrb_const_get\<close> on a class: the constant's value, or a NameError. Only the
  constants of the class itself are searched.
\<close>

definition mrb_const_get :: "mrb_state \<Rightarrow> string \<Rightarrow> string \<Rightarrow> mrb_exc + mrb_value" where
  "mrb_const_get st outer name =
     (case map_of (classes st) outer of
        None \<Rightarrow> Inl NameError
      | Some c \<Rightarrow> (case map_of (c_consts c) name of
                     None \<Rightarrow> Inl NameError
                   | Some v \<Rightarrow> Inr v))"

text \<open>
  \<^verbatim>\<open>mrb_class_get_under\<close> and \<^verbatim>\<open>mrb_class_get\<close>: the constant must hold a class,
  any other value is a TypeError. \<^verbatim>\<open>mrb_module_get\<close> is the same for modules.
\<close>

definition mrb_class_get_under :: "mrb_state \<Rightarrow> string \<Rightarrow> string \<Rightarrow> mrb_exc + string" where
  "mrb_class_get_under st outer name =
     and_then (mrb_const_get st outer name)
       (\<lambda>v. case v of ClassV c \<Rightarrow> Inr c | _ \<Rightarrow> Inl TypeError)"

definition mrb_class_get :: "mrb_state \<Rightarrow> string \<Rightarrow> mrb_exc + string" where
  "mrb_class_get st name = mrb_class_get_under st ''Object'' name"

definition mrb_module_get :: "mrb_state \<Rightarrow> string \<Rightarrow> mrb_exc + string" where
  "mrb_module_get st name =
     and_then (mrb_const_get st ''Object'' name)
       (\<lambda>v. case v of ModuleV m \<Rightarrow> Inr m | _ \<Rightarrow> Inl TypeError)"

text \<open>Updating one class of the state; a class that does not exist is a NameError.\<close>

definition update_class :: "mrb_state \<Rightarrow> string \<Rightarrow> (rclass \<Rightarrow> rclass) \<Rightarrow> mrb_exc + mrb_state" where
  "update_class st cls f =
     (case map_of (classes st) cls of
        None \<Rightarrow> Inl NameError
      | Some c \<Rightarrow> Inr (st\<lparr>classes := AList.update cls (f c) (classes st)\<rparr>))"

definition mrb_define_const :: "mrb_state \<Rightarrow> string \<Rightarrow> string \<Rightarrow> mrb_value \<Rightarrow> mrb_exc + mrb_state" where
  "mrb_define_const st cls name v =
     update_class st cls (\<lambda>c. c\<lparr>c_consts := AList.update name v (c_consts c)\<rparr>)"

definition mrb_define_method :: "mrb_state \<Rightarrow> string \<Rightarrow> string \<Rightarrow> cfunc \<Rightarrow> mrb_exc + mrb_state" where
  "mrb_define_method st cls name f =
     update_class st cls (\<lambda>c. c\<lparr>c_methods := AList.update name f (c_methods c)\<rparr>)"

definition mrb_undef_class_method :: "mrb_state \<Rightarrow> string \<Rightarrow> string \<Rightarrow> mrb_exc + mrb_state" where
  "mrb_undef_class_method st cls name =
     update_class st cls (\<lambda>c. c\<lparr>c_undef_class_methods := name # c_undef_class_methods c\<rparr>)"

definition mrb_include_module :: "mrb_state \<Rightarrow> string \<Rightarrow> string \<Rightarrow> mrb_exc + mrb_state" where
  "mrb_include_module st cls m =
     update_class st cls (\<lambda>c. c\<lparr>c_included := m # c_included c\<rparr>)"

text \<open>
  \<^verbatim>\<open>mrb_define_class_under\<close>: the class of that name under \<open>outer\<close>, created (with
  its constant in \<open>outer\<close>) unless the constant exists already; an existing constant
  that is not a class is a TypeError. The new class is called \<open>outer::name\<close>, and \<open>name\<close>
  alone directly under \<^verbatim>\<open>Object\<close>.
\<close>

definition nested_name :: "string \<Rightarrow> string \<Rightarrow> string" where
  "nested_name outer name = (if outer = ''Object'' then name else outer @ ''::'' @ name)"

definition mrb_define_class_under :: "mrb_state \<Rightarrow> string \<Rightarrow> string \<Rightarrow> mrb_exc + (string \<times> mrb_state)" where
  "mrb_define_class_under st outer name =
     (case mrb_const_get st outer name of
        Inr (ClassV c) \<Rightarrow> Inr (c, st)
      | Inr _ \<Rightarrow> Inl TypeError
      | Inl _ \<Rightarrow>
          and_then
            (mrb_define_const
               (st\<lparr>classes := classes st @ [(nested_name outer name, empty_class)]\<rparr>)
               outer name (ClassV (nested_name outer name)))
            (\<lambda>st'. Inr (nested_name outer name, st')))"

definition mrb_define_class :: "mrb_state \<Rightarrow> string \<Rightarrow> mrb_exc + (string \<times> mrb_state)" where
  "mrb_define_class st name = mrb_define_class_under st ''Object'' name"

text \<open>
  \<^verbatim>\<open>Data_Wrap_Struct\<close>: a new data object of the given class around a native pointer.
  Every call allocates.
\<close>

definition Data_Wrap_Struct :: "mrb_state \<Rightarrow> string \<Rightarrow> nat \<Rightarrow> mrb_value \<times> mrb_state" where
  "Data_Wrap_Struct st cls ptr =
     (ObjRef (length (heap st)),
      st\<lparr>heap := heap st @ [\<lparr>obj_class = cls, obj_iv = [], obj_data = Some ptr, obj_args = []\<rparr>]\<rparr>)"

text \<open>Instance variables: reading one that is unset, or of a value that has none, gives nil.\<close>

definition mrb_iv_get :: "mrb_state \<Rightarrow> mrb_value \<Rightarrow> string \<Rightarrow> mrb_value" where
  "mrb_iv_get st obj name =
     (case obj of
        ObjRef a \<Rightarrow>
          (if a < length (heap st)
           then (case map_of (obj_iv (heap st ! a)) name of None \<Rightarrow> Nil | Some v \<Rightarrow> v)
           else Nil)
      | _ \<Rightarrow> Nil)"

definition mrb_iv_set :: "mrb_state \<Rightarrow> mrb_value \<Rightarrow> string \<Rightarrow> mrb_value \<Rightarrow> mrb_state" where
  "mrb_iv_set st obj name v =
     (case obj of
        ObjRef a \<Rightarrow>
          (if a < length (heap st)
           then st\<lparr>heap := (heap st)[a := (heap st ! a)\<lparr>obj_iv := AList.update name v (obj_iv (heap st ! a))\<rparr>]\<rparr>
           else st)
      | _ \<Rightarrow> st)"

text \<open>
  \<^verbatim>\<open>mrb_obj_equal\<close>, the identity test behind \<^verbatim>\<open>equal?\<close> and the default \<^verbatim>\<open>==\<close>:
  two object references are the same object when they are the same address.
\<close>

definition mrb_obj_equal :: "mrb_value \<Rightarrow> mrb_value \<Rightarrow> bool" where
  "mrb_obj_equal v w = (v = w)"

text \<open>The native pointer a data object wraps, and the instances of a class on the heap.\<close>

definition data_ptr :: "mrb_state \<Rightarrow> mrb_value \<Rightarrow> nat option" where
  "data_ptr st v =
     (case v of
        ObjRef a \<Rightarrow> (if a < length (heap st) then obj_data (heap st ! a) else None)
      | _ \<Rightarrow> None)"

definition class_of :: "mrb_state \<Rightarrow> mrb_value \<Rightarrow> string option" where
  "class_of st v =
     (case v of
        ObjRef a \<Rightarrow> (if a < length (heap st) then Some (obj_class (heap st ! a)) else None)
      | _ \<Rightarrow> None)"

definition instances_of :: "mrb_state \<Rightarrow> string \<Rightarrow> nat list" where
  "instances_of st cls = filter (\<lambda>a. obj_class (heap st ! a) = cls) [0 ..< length (heap st)]"

text \<open>
  \<^verbatim>\<open>mrb_string_value_ptr\<close>: the characters of a string as a C string; any other
  value is converted with its \<^verbatim>\<open>to_s\<close> method, which for nil gives the empty string.
  The \<^verbatim>\<open>to_s\<close> of the remaining values is a parameter.
\<close>

definition mrb_string_value_ptr :: "(mrb_value \<Rightarrow> string) \<Rightarrow> mrb_value \<Rightarrow> string" where
  "mrb_string_value_ptr to_s v = c_str (case v of Str s \<Rightarrow> s | Nil \<Rightarrow> [] | _ \<Rightarrow> to_s v)"

section \<open>The engine state behind the Level bindings\<close>

text \<open>
  The fields of \<^verbatim>\<open>cLevel\<close> that the accessors of mrb\_level.cpp read. Paths are kept
  as their UTF-8 strings (\<^verbatim>\<open>path_to_utf8\<close> is the identity here), and the music path,
  which the source obtains from a getter, is a field.
\<close>

record GL_rect =
  m_x :: real
  m_y :: real
  m_w :: real
  m_h :: real

record cLevel =
  m_author :: string
  m_description :: string
  m_difficulty :: int
  m_engine_version :: int
  m_level_filename :: string
  m_musicfile :: string
  m_script :: string
  m_next_level_filename :: string
  m_camera_limits :: GL_rect
  m_player_start_pos_x :: real
  m_player_start_pos_y :: real
  m_fixed_camera_hor_vel :: real

text \<open>
  The globals the bindings use: the interpreter, \<^verbatim>\<open>pActive_Level\<close>, the return stack
  of \<^verbatim>\<open>pLevel_Player\<close> (a vector whose back is the top) and the address of
  \<^verbatim>\<open>pSavegame\<close>. \<open>uninit\<close> is whatever an uninitialised \<^verbatim>\<open>mrb_value\<close> local
  variable of a C function holds.
\<close>

record engine =
  mruby :: mrb_state
  pActive_Level :: cLevel
  m_return_stack :: "(string \<times> string) list"
  pSavegame :: nat
  uninit :: mrb_value

type_synonym method_result = "(mrb_exc + mrb_value) \<times> engine"

subsection \<open>The return stack of the level player\<close>

text \<open>
  Modelled from the spec: \<^verbatim>\<open>cLevel_Player::Push_Return\<close>, \<^verbatim>\<open>Pop_Return\<close> and
  \<^verbatim>\<open>Clear_Return\<close> are called by mrb\_level.cpp and implemented elsewhere. The return
  stack is an ordered sequence with stack discipline: push appends, pop removes and
  returns the most recent entry, clear empties. Popping reports through its boolean
  result whether there was an entry.
\<close>

definition cLevel_Player_Push_Return :: "(string \<times> string) list \<Rightarrow> string \<Rightarrow> string \<Rightarrow> (string \<times> string) list" where
  "cLevel_Player_Push_Return stack level entry = stack @ [(level, entry)]"

definition cLevel_Player_Pop_Return :: "(string \<times> string) list \<Rightarrow> ((string \<times> string) \<times> (string \<times> string) list) option" where
  "cLevel_Player_Pop_Return stack =
     (if stack = [] then None else Some (last stack, butlast stack))"

definition cLevel_Player_Clear_Return :: "(string \<times> string) list \<Rightarrow> (string \<times> string) list" where
  "cLevel_Player_Clear_Return stack = []"

subsection \<open>Script handles of native objects\<close>

text \<open>
  \<^verbatim>\<open>cSavegame::Create_MRuby_Object\<close> wraps the savegame in a data object of class
  \<^verbatim>\<open>LevelClass\<close>; \<^verbatim>\<open>cSecret_Area::Create_MRuby_Object\<close> does the same for a secret
  area with class \<^verbatim>\<open>SecretArea\<close>. \<open>this\<close> is the address of the native object.
\<close>

definition Create_MRuby_Object :: "string \<Rightarrow> mrb_state \<Rightarrow> nat \<Rightarrow> mrb_exc + (mrb_value \<times> mrb_state)" where
  "Create_MRuby_Object class_name st this =
     and_then (mrb_class_get st class_name) (\<lambda>c. Inr (Data_Wrap_Struct st c this))"

definition cSavegame_Create_MRuby_Object :: "mrb_state \<Rightarrow> nat \<Rightarrow> mrb_exc + (mrb_value \<times> mrb_state)" where
  "cSavegame_Create_MRuby_Object = Create_MRuby_Object ''LevelClass''"

definition cSecret_Area_Create_MRuby_Object :: "mrb_state \<Rightarrow> nat \<Rightarrow> mrb_exc + (mrb_value \<times> mrb_state)" where
  "cSecret_Area_Create_MRuby_Object = Create_MRuby_Object ''SecretArea''"

text \<open>Calling the method twice in one session, on the same native object.\<close>

definition create_twice :: "string \<Rightarrow> mrb_state \<Rightarrow> nat \<Rightarrow> mrb_exc + (mrb_value \<times> mrb_value \<times> mrb_state)" where
  "create_twice class_name st this =
     and_then (Create_MRuby_Object class_name st this)
       (\<lambda>(v1, st1). and_then (Create_MRuby_Object class_name st1 this)
          (\<lambda>(v2, st2). Inr (v1, v2, st2)))"

subsection \<open>The accessors\<close>

text \<open>
  Each accessor ignores its receiver and reads \<^verbatim>\<open>pActive_Level\<close>. A string field is
  handed to \<^verbatim>\<open>mrb_str_new_cstr\<close> through \<^verbatim>\<open>c_str()\<close>.
\<close>

definition Get_Author :: "engine \<Rightarrow> mrb_value \<Rightarrow> method_result" where
  "Get_Author g self = (Inr (Str (c_str (m_author (pActive_Level g)))), g)"

definition Get_Description :: "engine \<Rightarrow> mrb_value \<Rightarrow> method_result" where
  "Get_Description g self = (Inr (Str (c_str (m_description (pActive_Level g)))), g)"

definition Get_Difficulty :: "engine \<Rightarrow> mrb_value \<Rightarrow> method_result" where
  "Get_Difficulty g self = (Inr (Fixnum (m_difficulty (pActive_Level g))), g)"

definition Get_Engine_Version :: "engine \<Rightarrow> mrb_value \<Rightarrow> method_result" where
  "Get_Engine_Version g self = (Inr (Fixnum (m_engine_version (pActive_Level g))), g)"

definition Get_Filename :: "engine \<Rightarrow> mrb_value \<Rightarrow> method_result" where
  "Get_Filename g self = (Inr (Str (c_str (m_level_filename (pActive_Level g)))), g)"

definition Get_Music_Filename :: "engine \<Rightarrow> mrb_value \<Rightarrow> method_result" where
  "Get_Music_Filename g self = (Inr (Str (c_str (m_musicfile (pActive_Level g)))), g)"

definition Get_Script :: "engine \<Rightarrow> mrb_value \<Rightarrow> method_result" where
  "Get_Script g self = (Inr (Str (c_str (m_script (pActive_Level g)))), g)"

definition Get_Next_Level_Filename :: "engine \<Rightarrow> mrb_value \<Rightarrow> method_result" where
  "Get_Next_Level_Filename g self = (Inr (Str (c_str (m_next_level_filename (pActive_Level g)))), g)"

definition Get_Fixed_Hor_Vel :: "engine \<Rightarrow> mrb_value \<Rightarrow> method_result" where
  "Get_Fixed_Hor_Vel g self = (Inr (Float (m_fixed_camera_hor_vel (pActive_Level g))), g)"

subsection \<open>Stack entries\<close>

text \<open>
  \<^verbatim>\<open>SE_Initialize\<close> takes up to two optional arguments and stores them in \<^verbatim>\<open>@level\<close>
  and \<^verbatim>\<open>@entry\<close>. An argument that is not given leaves its C local uninitialised.
\<close>

definition SE_Initialize :: "engine \<Rightarrow> mrb_value \<Rightarrow> mrb_value list \<Rightarrow> method_result" where
  "SE_Initialize g self args =
     (let store = (\<lambda>level entry.
            (Inr self,
             g\<lparr>mruby := mrb_iv_set (mrb_iv_set (mruby g) self ''@level'' level) self ''@entry'' entry\<rparr>))
      in case args of
           [] \<Rightarrow> store (uninit g) (uninit g)
         | [level] \<Rightarrow> store level (uninit g)
         | [level, entry] \<Rightarrow> store level entry
         | _ \<Rightarrow> (Inl ArgumentError, g))"

definition SE_Get_Level :: "engine \<Rightarrow> mrb_value \<Rightarrow> method_result" where
  "SE_Get_Level g self = (Inr (mrb_iv_get (mruby g) self ''@level''), g)"

definition SE_Get_Entry :: "engine \<Rightarrow> mrb_value \<Rightarrow> method_result" where
  "SE_Get_Entry g self = (Inr (mrb_iv_get (mruby g) self ''@entry''), g)"

text \<open>
  \<^verbatim>\<open>mrb_obj_new\<close>: allocate an instance and run the \<^verbatim>\<open>initialize\<close> method of its
  class on the arguments. \<^verbatim>\<open>SE_Initialize\<close> is the only initializer that
  mrb\_level.cpp defines; an instance of any other class records the arguments it was
  made from.
\<close>

definition mrb_obj_new :: "engine \<Rightarrow> string \<Rightarrow> mrb_value list \<Rightarrow> method_result" where
  "mrb_obj_new g cls args =
     (let a = length (heap (mruby g));
          allocated = (\<lambda>kept. g\<lparr>mruby := (mruby g)\<lparr>heap := heap (mruby g) @
             [\<lparr>obj_class = cls, obj_iv = [], obj_data = None, obj_args = kept\<rparr>]\<rparr>\<rparr>)
      in case map_of (classes (mruby g)) cls of
           None \<Rightarrow> (Inl NameError, g)
         | Some c \<Rightarrow>
             (case map_of (c_methods c) ''initialize'' of
                Some F_SE_Initialize \<Rightarrow>
                  (case SE_Initialize (allocated []) (ObjRef a) args of
                     (Inl e, g2) \<Rightarrow> (Inl e, g2)
                   | (Inr _, g2) \<Rightarrow> (Inr (ObjRef a), g2))
              | _ \<Rightarrow> (Inr (ObjRef a), allocated args)))"

text \<open>
  \<^verbatim>\<open>Get_Boundaries\<close> and \<^verbatim>\<open>Get_Start_Position\<close> make an instance of the class
  \<^verbatim>\<open>Rect\<close> or \<^verbatim>\<open>Point\<close>, which are defined elsewhere, from the camera limits and
  the start position of \<^verbatim>\<open>pActive_Level\<close>.
\<close>

definition Get_Boundaries :: "engine \<Rightarrow> mrb_value \<Rightarrow> method_result" where
  "Get_Boundaries g self =
     (case mrb_class_get (mruby g) ''Rect'' of
        Inl e \<Rightarrow> (Inl e, g)
      | Inr p_class \<Rightarrow>
          mrb_obj_new g p_class
            [Float (m_x (m_camera_limits (pActive_Level g))),
             Float (m_y (m_camera_limits (pActive_Level g))),
             Float (m_w (m_camera_limits (pActive_Level g))),
             Float (m_h (m_camera_limits (pActive_Level g)))])"

definition Get_Start_Position :: "engine \<Rightarrow> mrb_value \<Rightarrow> method_result" where
  "Get_Start_Position g self =
     (case mrb_class_get (mruby g) ''Point'' of
        Inl e \<Rightarrow> (Inl e, g)
      | Inr p_class \<Rightarrow>
          mrb_obj_new g p_class
            [Float (m_player_start_pos_x (pActive_Level g)),
             Float (m_player_start_pos_y (pActive_Level g))])"

text \<open>
  What a script's \<^verbatim>\<open>SomeClass.new(args)\<close> does: a class whose class method
  \<^verbatim>\<open>new\<close> has been undefined raises NoMethodError, any other class makes an instance.
\<close>

definition script_new :: "engine \<Rightarrow> string \<Rightarrow> mrb_value list \<Rightarrow> method_result" where
  "script_new g cls args =
     (case map_of (classes (mruby g)) cls of
        None \<Rightarrow> (Inl NameError, g)
      | Some c \<Rightarrow>
          (if ''new'' \<in> set (c_undef_class_methods c) then (Inl NoMethodError, g)
           else mrb_obj_new g cls args))"

subsection \<open>The return stack methods\<close>

text \<open>
  \<^verbatim>\<open>Push_Return\<close> requires one argument, reads its \<^verbatim>\<open>@level\<close> and \<^verbatim>\<open>@entry\<close> and
  pushes their strings.
\<close>

definition Push_Return :: "(mrb_value \<Rightarrow> string) \<Rightarrow> engine \<Rightarrow> mrb_value \<Rightarrow> mrb_value list \<Rightarrow> method_result" where
  "Push_Return to_s g self args =
     (case args of
        [stackentry] \<Rightarrow>
          (let level = mrb_iv_get (mruby g) stackentry ''@level'';
               entry = mrb_iv_get (mruby g) stackentry ''@entry''
           in (Inr Nil,
               g\<lparr>m_return_stack :=
                    cLevel_Player_Push_Return (m_return_stack g)
                      (mrb_string_value_ptr to_s level) (mrb_string_value_ptr to_s entry)\<rparr>))
      | _ \<Rightarrow> (Inl ArgumentError, g))"

text \<open>
  The class of the stack entries is looked up as
  \<^verbatim>\<open>mrb_class_get_under(p_state, mrb_class_get(p_state, "Level"), "StackEntry")\<close>
  by \<^verbatim>\<open>Pop_Return\<close> (after the native pop succeeded) and by \<^verbatim>\<open>Get_Return_Stack\<close>
  (before its loop).
\<close>

definition stack_entry_class :: "mrb_state \<Rightarrow> mrb_exc + string" where
  "stack_entry_class st =
     and_then (mrb_class_get st ''Level'') (\<lambda>outer. mrb_class_get_under st outer ''StackEntry'')"

definition Pop_Return :: "engine \<Rightarrow> mrb_value \<Rightarrow> method_result" where
  "Pop_Return g self =
     (case cLevel_Player_Pop_Return (m_return_stack g) of
        Some ((level, entry), rest) \<Rightarrow>
          (let g1 = g\<lparr>m_return_stack := rest\<rparr>
           in case stack_entry_class (mruby g1) of
                Inl e \<Rightarrow> (Inl e, g1)
              | Inr p_klass \<Rightarrow> mrb_obj_new g1 p_klass [Str (c_str level), Str (c_str entry)])
      | None \<Rightarrow> (Inr Nil, g))"

definition Clear_Return :: "engine \<Rightarrow> mrb_value \<Rightarrow> method_result" where
  "Clear_Return g self = (Inr Nil, g\<lparr>m_return_stack := cLevel_Player_Clear_Return (m_return_stack g)\<rparr>)"

fun return_stack_entries :: "engine \<Rightarrow> string \<Rightarrow> (string \<times> string) list \<Rightarrow> mrb_value list \<Rightarrow> (mrb_exc + mrb_value list) \<times> engine" where
  "return_stack_entries g p_klass [] ary = (Inr ary, g)"
| "return_stack_entries g p_klass ((level, entry) # rest) ary =
     (case mrb_obj_new g p_klass [Str (c_str level), Str (c_str entry)] of
        (Inl e, g1) \<Rightarrow> (Inl e, g1)
      | (Inr stackentry, g1) \<Rightarrow> return_stack_entries g1 p_klass rest (ary @ [stackentry]))"

definition Get_Return_Stack :: "engine \<Rightarrow> mrb_value \<Rightarrow> method_result" where
  "Get_Return_Stack g self =
     (case stack_entry_class (mruby g) of
        Inl e \<Rightarrow> (Inl e, g)
      | Inr p_klass \<Rightarrow>
          (case return_stack_entries g p_klass (m_return_stack g) [] of
             (Inl e, g1) \<Rightarrow> (Inl e, g1)
           | (Inr ary, g1) \<Rightarrow> (Inr (Ary ary), g1)))"

subsection \<open>Method calls from a script\<close>

text \<open>
  The model function behind each bound C function. \<^verbatim>\<open>Finish\<close>,
  \<^verbatim>\<open>Display_Info_Message\<close> and the two event registrations act on collaborators
  that are not part of this model.
\<close>

fun cfunc_impl :: "(mrb_value \<Rightarrow> string) \<Rightarrow> cfunc \<Rightarrow> (engine \<Rightarrow> mrb_value \<Rightarrow> mrb_value list \<Rightarrow> method_result) option" where
  "cfunc_impl to_s F_Get_Author = Some (\<lambda>g self args. Get_Author g self)"
| "cfunc_impl to_s F_Get_Description = Some (\<lambda>g self args. Get_Description g self)"
| "cfunc_impl to_s F_Get_Difficulty = Some (\<lambda>g self args. Get_Difficulty g self)"
| "cfunc_impl to_s F_Get_Engine_Version = Some (\<lambda>g self args. Get_Engine_Version g self)"
| "cfunc_impl to_s F_Get_Filename = Some (\<lambda>g self args. Get_Filename g self)"
| "cfunc_impl to_s F_Get_Music_Filename = Some (\<lambda>g self args. Get_Music_Filename g self)"
| "cfunc_impl to_s F_Get_Script = Some (\<lambda>g self args. Get_Script g self)"
| "cfunc_impl to_s F_Get_Next_Level_Filename = Some (\<lambda>g self args. Get_Next_Level_Filename g self)"
| "cfunc_impl to_s F_Get_Boundaries = Some (\<lambda>g self args. Get_Boundaries g self)"
| "cfunc_impl to_s F_Get_Start_Position = Some (\<lambda>g self args. Get_Start_Position g self)"
| "cfunc_impl to_s F_Get_Fixed_Hor_Vel = Some (\<lambda>g self args. Get_Fixed_Hor_Vel g self)"
| "cfunc_impl to_s F_Push_Return = Some (Push_Return to_s)"
| "cfunc_impl to_s F_Pop_Return = Some (\<lambda>g self args. Pop_Return g self)"
| "cfunc_impl to_s F_Clear_Return = Some (\<lambda>g self args. Clear_Return g self)"
| "cfunc_impl to_s F_Get_Return_Stack = Some (\<lambda>g self args. Get_Return_Stack g self)"
| "cfunc_impl to_s F_SE_Initialize = Some SE_Initialize"
| "cfunc_impl to_s F_SE_Get_Level = Some (\<lambda>g self args. SE_Get_Level g self)"
| "cfunc_impl to_s F_SE_Get_Entry = Some (\<lambda>g self args. SE_Get_Entry g self)"
| "cfunc_impl to_s _ = None"

text \<open>
  A script's \<^verbatim>\<open>recv.name(args)\<close> on an object whose class binds \<open>name\<close> itself.
  The result is \<open>None\<close> where the call leaves the model: the receiver is not a heap
  object, the method is inherited, or its C function is not modelled.
\<close>

definition mrb_funcall :: "(mrb_value \<Rightarrow> string) \<Rightarrow> engine \<Rightarrow> mrb_value \<Rightarrow> string \<Rightarrow> mrb_value list \<Rightarrow> method_result option" where
  "mrb_funcall to_s g recv name args =
     (case class_of (mruby g) recv of
        None \<Rightarrow> None
      | Some cls \<Rightarrow>
          (case map_of (classes (mruby g)) cls of
             None \<Rightarrow> None
           | Some c \<Rightarrow>
               (case map_of (c_methods c) name of
                  None \<Rightarrow> None
                | Some f \<Rightarrow>
                    (case cfunc_impl to_s f of
                       None \<Rightarrow> None
                     | Some impl \<Rightarrow> Some (impl g recv args)))))"

text \<open>The value of the global constant \<^verbatim>\<open>Level\<close>, as a script reads it.\<close>

definition Level_const :: "engine \<Rightarrow> mrb_exc + mrb_value" where
  "Level_const g = mrb_const_get (mruby g) ''Object'' ''Level''"

subsection \<open>Init\_Level\<close>

text \<open>
  The methods are defined in the order of the source. \<^verbatim>\<open>MRB_SET_INSTANCE_TT\<close> only
  fixes the memory layout of instances and has no counterpart here.
\<close>

definition level_methods :: "(string \<times> cfunc) list" where
  "level_methods =
     [(''author'', F_Get_Author),
      (''description'', F_Get_Description),
      (''difficulty'', F_Get_Difficulty),
      (''engine_version'', F_Get_Engine_Version),
      (''filename'', F_Get_Filename),
      (''music_filename'', F_Get_Music_Filename),
      (''script'', F_Get_Script),
      (''next_level_filename'', F_Get_Next_Level_Filename),
      (''finish'', F_Finish),
      (''display_info_message'', F_Display_Info_Message),
      (''push_return'', F_Push_Return),
      (''pop_return'', F_Pop_Return),
      (''clear_return'', F_Clear_Return),
      (''return_stack'', F_Get_Return_Stack),
      (''boundaries'', F_Get_Boundaries),
      (''start_position'', F_Get_Start_Position),
      (''fixed_horizontal_velocity'', F_Get_Fixed_Hor_Vel),
      (''on_load'', F_Event_Handler_load),
      (''on_save'', F_Event_Handler_save)]"

definition stack_entry_methods :: "(string \<times> cfunc) list" where
  "stack_entry_methods =
     [(''initialize'', F_SE_Initialize),
      (''level'', F_SE_Get_Level),
      (''entry'', F_SE_Get_Entry)]"

fun define_methods :: "mrb_state \<Rightarrow> string \<Rightarrow> (string \<times> cfunc) list \<Rightarrow> mrb_exc + mrb_state" where
  "define_methods st cls [] = Inr st"
| "define_methods st cls ((name, f) # ms) =
     and_then (mrb_define_method st cls name f) (\<lambda>st'. define_methods st' cls ms)"

definition Init_Level :: "mrb_state \<Rightarrow> nat \<Rightarrow> mrb_exc + mrb_state" where
  "Init_Level st savegame =
     and_then (mrb_define_class st ''LevelClass'') (\<lambda>(p_rcLevel, st1).
     and_then (mrb_module_get st1 ''Eventable'') (\<lambda>eventable.
     and_then (mrb_include_module st1 p_rcLevel eventable) (\<lambda>st2.
     and_then (cSavegame_Create_MRuby_Object st2 savegame) (\<lambda>(level, st3).
     and_then (mrb_define_const st3 ''Object'' ''Level'' level) (\<lambda>st4.
     and_then (mrb_undef_class_method st4 p_rcLevel ''new'') (\<lambda>st5.
     and_then (define_methods st5 p_rcLevel level_methods) (\<lambda>st6.
     and_then (mrb_define_class_under st6 p_rcLevel ''StackEntry'') (\<lambda>(p_rcLevel_StackEntry, st7).
       define_methods st7 p_rcLevel_StackEntry stack_entry_methods))))))))"

text \<open>
  An interpreter as it is before \<^verbatim>\<open>Init_Level\<close> runs: \<^verbatim>\<open>Object\<close>, the
  \<^verbatim>\<open>Eventable\<close> module and the classes \<^verbatim>\<open>Rect\<close> and \<^verbatim>\<open>Point\<close> exist, the heap
  is empty.
\<close>

definition boot_state :: mrb_state where
  "boot_state =
     \<lparr>classes =
        [(''Object'', empty_class\<lparr>c_consts := [(''Object'', ClassV ''Object''),
                                               (''Eventable'', ModuleV ''Eventable''),
                                               (''Rect'', ClassV ''Rect''),
                                               (''Point'', ClassV ''Point'')]\<rparr>),
         (''Eventable'', empty_class),
         (''Rect'', empty_class),
         (''Point'', empty_class)],
      heap = []\<rparr>"

definition test_level :: cLevel where
  "test_level =
     \<lparr>m_author = ''Quintus'', m_description = ''A tower'', m_difficulty = 40,
      m_engine_version = 43, m_level_filename = ''tower.tsclvl'', m_musicfile = ''land.ogg'',
      m_script = '''', m_next_level_filename = '''',
      m_camera_limits = \<lparr>m_x = 0, m_y = 0, m_w = 20000, m_h = - 4000\<rparr>,
      m_player_start_pos_x = 200, m_player_start_pos_y = - 300,
      m_fixed_camera_hor_vel = 0\<rparr>"

text \<open>A sublevel; the bytes after the NUL in its author field are not part of the C string.\<close>

definition sub_level :: cLevel where
  "sub_level =
     \<lparr>m_author = ''Luiji'' @ [CHR 0x00] @ ''x'', m_description = ''A cave'', m_difficulty = 10,
      m_engine_version = 43, m_level_filename = ''cave.tsclvl'', m_musicfile = ''cave.ogg'',
      m_script = '''', m_next_level_filename = ''tower.tsclvl'',
      m_camera_limits = \<lparr>m_x = 0, m_y = 0, m_w = 5000, m_h = - 600\<rparr>,
      m_player_start_pos_x = 50, m_player_start_pos_y = - 80,
      m_fixed_camera_hor_vel = 3\<rparr>"

text \<open>
  The interpreter after \<^verbatim>\<open>Init_Level\<close> on the boot state with the savegame at
  address 7, and an engine around it with an empty return stack.
\<close>

definition level_state :: mrb_state where
  "level_state = (case Init_Level boot_state 7 of Inr st \<Rightarrow> st | Inl e \<Rightarrow> boot_state)"

definition test_engine :: engine where
  "test_engine =
     \<lparr>mruby = level_state, pActive_Level = test_level, m_return_stack = [], pSavegame = 7,
      uninit = Nil\<rparr>"

text \<open>An interpreter in which the class \<^verbatim>\<open>SecretArea\<close> is defined.\<close>

definition secret_state :: mrb_state where
  "secret_state =
     (case mrb_define_class boot_state ''SecretArea'' of Inr (c, st) \<Rightarrow> st | Inl e \<Rightarrow> boot_state)"

subsection \<open>Runs of a session\<close>

text \<open>
  What can happen in a session after \<^verbatim>\<open>Init_Level\<close>, as far as this model sees
  it: a script makes an instance of a class with \<^verbatim>\<open>new\<close> or calls a method, and the
  engine makes another level the active one or changes the return stack. A run is a
  sequence of such steps; it has no result when one of its calls leaves the model. No
  step wraps the savegame again: in the sources only \<^verbatim>\<open>Init_Level\<close> calls its
  \<^verbatim>\<open>Create_MRuby_Object\<close>.
\<close>

datatype step =
    Script_New string "mrb_value list"
  | Script_Call mrb_value string "mrb_value list"
  | Engine_Sets_Level cLevel
  | Engine_Sets_Return_Stack "(string \<times> string) list"

fun run_step :: "(mrb_value \<Rightarrow> string) \<Rightarrow> engine \<Rightarrow> step \<Rightarrow> engine option" where
  "run_step to_s g (Script_New cls args) = Some (snd (script_new g cls args))"
| "run_step to_s g (Script_Call recv name args) =
     (case mrb_funcall to_s g recv name args of
        None \<Rightarrow> None
      | Some (result, g') \<Rightarrow> Some g')"
| "run_step to_s g (Engine_Sets_Level level) = Some (g\<lparr>pActive_Level := level\<rparr>)"
| "run_step to_s g (Engine_Sets_Return_Stack stack) = Some (g\<lparr>m_return_stack := stack\<rparr>)"

fun run :: "(mrb_value \<Rightarrow> string) \<Rightarrow> engine \<Rightarrow> step list \<Rightarrow> engine option" where
  "run to_s g [] = Some g"
| "run to_s g (s # steps) =
     (case run_step to_s g s of
        None \<Rightarrow> None
      | Some g' \<Rightarrow> run to_s g' steps)"

text \<open>
  An interpreter that knows nothing called \<^verbatim>\<open>LevelClass\<close> yet: no such global
  constant, no such class, no such object, and neither \<^verbatim>\<open>Rect\<close> nor \<^verbatim>\<open>Point\<close> names
  such a class. \<^verbatim>\<open>Init_Level\<close> runs on an interpreter of this kind.
\<close>

definition before_Init_Level :: "mrb_state \<Rightarrow> bool" where
  "before_Init_Level st \<longleftrightarrow>
     isl (mrb_const_get st ''Object'' ''LevelClass'')
     \<and> map_of (classes st) ''LevelClass'' = None
     \<and> instances_of st ''LevelClass'' = []
     \<and> mrb_class_get st ''Rect'' \<noteq> Inr ''LevelClass''
     \<and> mrb_class_get st ''Point'' \<noteq> Inr ''LevelClass''"

text \<open>
  What \<^verbatim>\<open>Init_Level\<close> sets up and every step of a run keeps: the constant
  \<^verbatim>\<open>Level\<close> holds the object at address \<open>a\<close>, which is a \<^verbatim>\<open>LevelClass\<close> object
  around the native pointer \<open>p\<close> and the only \<^verbatim>\<open>LevelClass\<close> object on the heap; the
  class has the methods of \<^verbatim>\<open>Init_Level\<close> and no \<^verbatim>\<open>new\<close>; and neither \<^verbatim>\<open>Rect\<close> nor
  \<^verbatim>\<open>Point\<close> names that class.
\<close>

definition level_session :: "nat \<Rightarrow> nat \<Rightarrow> mrb_state \<Rightarrow> bool" where
  "level_session a p st \<longleftrightarrow>
     mrb_const_get st ''Object'' ''Level'' = Inr (ObjRef a)
     \<and> (case map_of (classes st) ''LevelClass'' of
          None \<Rightarrow> False
        | Some cL \<Rightarrow> c_methods cL = level_methods \<and> ''new'' \<in> set (c_undef_class_methods cL))
     \<and> mrb_class_get st ''Rect'' \<noteq> Inr ''LevelClass''
     \<and> mrb_class_get st ''Point'' \<noteq> Inr ''LevelClass''
     \<and> class_of st (ObjRef a) = Some ''LevelClass''
     \<and> data_ptr st (ObjRef a) = Some p
     \<and> instances_of st ''LevelClass'' = [a]"

text \<open>
  A run on the test engine: a script makes two stack entries and pushes the first, the
  player enters the sublevel, and the script asks for the boundaries.
\<close>

definition test_run :: "step list" where
  "test_run =
     [Script_New ''LevelClass::StackEntry'' [Str ''tower'', Str ''door''],
      Script_New ''LevelClass::StackEntry'' [],
      Script_Call (ObjRef 0) ''push_return'' [ObjRef 1],
      Script_New ''LevelClass'' [],
      Engine_Sets_Level sub_level,
      Script_Call (ObjRef 0) ''boundaries'' []]"

definition after_test_run :: engine where
  "after_test_run =
     (case run (\<lambda>v. []) test_engine test_run of Some g \<Rightarrow> g | None \<Rightarrow> test_engine)"

text \<open>
  A script pushing an entry: \<^verbatim>\<open>Level.push_return(LevelClass::StackEntry.new(level, entry))\<close>,
  and a script popping one: \<^verbatim>\<open>Level.pop_return\<close>.
\<close>

definition script_push_return :: "engine \<Rightarrow> string \<Rightarrow> string \<Rightarrow> method_result option" where
  "script_push_return g level entry =
     (case script_new g ''LevelClass::StackEntry'' [Str level, Str entry] of
        (Inl e, g1) \<Rightarrow> Some (Inl e, g1)
      | (Inr stackentry, g1) \<Rightarrow>
          (case Level_const g1 of
             Inl e \<Rightarrow> Some (Inl e, g1)
           | Inr level_obj \<Rightarrow> mrb_funcall (\<lambda>v. []) g1 level_obj ''push_return'' [stackentry]))"

definition script_pop_return :: "engine \<Rightarrow> method_result option" where
  "script_pop_return g =
     (case Level_const g of
        Inl e \<Rightarrow> Some (Inl e, g)
      | Inr level_obj \<Rightarrow> mrb_funcall (\<lambda>v. []) g level_obj ''pop_return'' [])"

text \<open>The test engine after pushing (A, x) and then (B, y).\<close>

definition pushed_twice :: "engine option" where
  "pushed_twice =
     (case script_push_return test_engine ''A'' ''x'' of
        Some (Inr _, g1) \<Rightarrow>
          (case script_push_return g1 ''B'' ''y'' of
             Some (Inr _, g2) \<Rightarrow> Some g2
           | _ \<Rightarrow> None)
      | _ \<Rightarrow> None)"

text \<open>Whether two handles made by successive calls are the same object for a script.\<close>

definition same_handle_twice :: "string \<Rightarrow> mrb_state \<Rightarrow> nat \<Rightarrow> mrb_exc + bool" where
  "same_handle_twice class_name st this =
     and_then (create_twice class_name st this) (\<lambda>(v1, v2, st2). Inr (mrb_obj_equal v1 v2))"

text \<open>The interpreter after one and after two handles of the savegame have been made.\<close>

definition once_state :: mrb_state where
  "once_state =
     (case Create_MRuby_Object ''LevelClass'' level_state 7 of
        Inr (v, st) \<Rightarrow> st
      | Inl e \<Rightarrow> level_state)"

definition twice_state :: mrb_state where
  "twice_state =
     (case create_twice ''LevelClass'' level_state 7 of
        Inr (v1, v2, st2) \<Rightarrow> st2
      | Inl e \<Rightarrow> level_state)"

section \<open>The save and load events\<close>

text \<open>
  The store that the handlers of the \<^verbatim>\<open>save\<close> event fill is a hash: its entries in
  insertion order, with distinct keys. Assigning to a key that is present replaces its
  value in place, assigning to a new key appends.
\<close>

type_synonym store = "(mrb_value \<times> mrb_value) list"

definition mrb_hash_set :: "store \<Rightarrow> mrb_value \<Rightarrow> mrb_value \<Rightarrow> store" where
  "mrb_hash_set h k v = AList.update k v h"

text \<open>
  A handler of the \<^verbatim>\<open>save\<close> event is the effect of its block on the hash it is given.
  \<open>writes kvs\<close> is the block that assigns \<^verbatim>\<open>store[k] = v\<close> for each pair in turn.
\<close>

type_synonym save_handler = "store \<Rightarrow> store"

definition writes :: "(mrb_value \<times> mrb_value) list \<Rightarrow> save_handler" where
  "writes kvs h = fold (\<lambda>(k, v) h'. mrb_hash_set h' k v) kvs h"

text \<open>
  Modelled from the spec: \<^verbatim>\<open>on_save\<close> is bound to a macro-generated function
  (\<^verbatim>\<open>MRUBY_EVENT_HANDLER(save)\<close>) whose code is not in the sources. Registering a
  handler appends it to the handlers of the event; it never replaces prior handlers.
\<close>

definition on_save :: "save_handler \<Rightarrow> save_handler list \<Rightarrow> save_handler list" where
  "on_save h handlers = handlers @ [h]"

text \<open>
  Modelled from the spec: the code that fires the \<^verbatim>\<open>save\<close> event
  (\<^verbatim>\<open>MRUBY_IMPLEMENT_EVENT(save)\<close> and its caller) is not in the sources. The event is
  fired with a single empty, mutable store; all registered handlers execute in
  registration order against the same shared store instance, each on what the handlers
  before it left there.
\<close>

fun Fire_save :: "save_handler list \<Rightarrow> store \<Rightarrow> store" where
  "Fire_save [] data = data"
| "Fire_save (h # handlers) data = Fire_save handlers (h data)"

text \<open>
  Three handlers: the first writes the keys a and b, the second, registered after it,
  the keys b and c, the third a position and a table of flags.
\<close>

definition handler_1 :: save_handler where
  "handler_1 = writes [(Str ''a'', Str ''h1''), (Str ''b'', Str ''h1'')]"

definition handler_2 :: save_handler where
  "handler_2 = writes [(Str ''b'', Str ''h2''), (Str ''c'', Str ''h2'')]"

definition handler_3 :: save_handler where
  "handler_3 =
     writes [(Str ''pos'', Ary [Float 1.5, Float (- 620), Fixnum 3]),
             (Str ''flags'', Hash [(Str ''red'', TrueV), (Str ''blue'', FalseV), (Str ''key'', Nil)])]"

definition three_handlers :: "save_handler list" where
  "three_handlers = on_save handler_3 (on_save handler_2 (on_save handler_1 []))"

text \<open>The store these handlers leave when the event is fired.\<close>

definition saved_store :: store where
  "saved_store =
     [(Str ''a'', Str ''h1''), (Str ''b'', Str ''h2''), (Str ''c'', Str ''h2''),
      (Str ''pos'', Ary [Float 1.5, Float (- 620), Fixnum 3]),
      (Str ''flags'', Hash [(Str ''red'', TrueV), (Str ''blue'', FalseV), (Str ''key'', Nil)])]"

subsection \<open>The payload as JSON\<close>

text \<open>
  A JSON document. A number is an integer literal or a literal with a fraction or an
  exponent; the second kind is the real number it denotes.
\<close>

datatype json =
    JNull
  | JBool bool
  | JNumber int
  | JReal real
  | JString string
  | JArray "json list"
  | JObject "(string \<times> json) list"

text \<open>
  Modelled from the spec: the store is serialized to a JSON-compatible structured value
  and deserialized back into the same shape by code that is not in the sources. Values
  that are not JSON-representable primitives degrade to their string representation.
  The documentation in mrb\_level.cpp says the same: such objects ``will be
  autoconverted to strings'', and symbols, as keys and as values, ``are converted to
  strings and therefore will show up as strings'' after loading. The string of a symbol
  is its name; the string of any other object is what its \<^verbatim>\<open>to_s\<close> gives, a parameter.
\<close>

fun mrb_string :: "(mrb_value \<Rightarrow> string) \<Rightarrow> mrb_value \<Rightarrow> string" where
  "mrb_string to_s (Str s) = s"
| "mrb_string to_s (Sym s) = s"
| "mrb_string to_s v = to_s v"

fun to_json :: "(mrb_value \<Rightarrow> string) \<Rightarrow> mrb_value \<Rightarrow> json" where
  "to_json to_s Nil = JNull"
| "to_json to_s FalseV = JBool False"
| "to_json to_s TrueV = JBool True"
| "to_json to_s (Fixnum n) = JNumber n"
| "to_json to_s (Float r) = JReal r"
| "to_json to_s (Str s) = JString s"
| "to_json to_s (Ary xs) = JArray (map (to_json to_s) xs)"
| "to_json to_s (Hash kvs) = JObject (map (\<lambda>(k, v). (mrb_string to_s k, to_json to_s v)) kvs)"
| "to_json to_s v = JString (mrb_string to_s v)"

fun from_json :: "json \<Rightarrow> mrb_value" where
  "from_json JNull = Nil"
| "from_json (JBool b) = (if b then TrueV else FalseV)"
| "from_json (JNumber n) = Fixnum n"
| "from_json (JReal r) = Float r"
| "from_json (JString s) = Str s"
| "from_json (JArray js) = Ary (map from_json js)"
| "from_json (JObject members) =
     Hash (fold (\<lambda>(k, j) h. mrb_hash_set h (Str k) (from_json j)) members [])"

text \<open>
  The values built only from JSON-representable primitives: nil, booleans, numbers
  (integers and floating-point numbers), strings, arrays of such values and hashes from
  strings to such values. A hash has distinct keys.
\<close>

fun json_primitive :: "mrb_value \<Rightarrow> bool" where
  "json_primitive Nil = True"
| "json_primitive FalseV = True"
| "json_primitive TrueV = True"
| "json_primitive (Fixnum n) = True"
| "json_primitive (Float r) = True"
| "json_primitive (Str s) = True"
| "json_primitive (Ary xs) = list_all json_primitive xs"
| "json_primitive (Hash kvs) =
     (distinct (map fst kvs)
      \<and> list_all (\<lambda>(k, v). (case k of Str s \<Rightarrow> True | _ \<Rightarrow> False) \<and> json_primitive v) kvs)"
| "json_primitive _ = False"

text \<open>The values that are stored as their string: symbols and all other objects.\<close>

fun stringified :: "mrb_value \<Rightarrow> bool" where
  "stringified (Sym s) = True"
| "stringified (ObjRef a) = True"
| "stringified (ClassV c) = True"
| "stringified (ModuleV m) = True"
| "stringified _ = False"

subsection \<open>Saving and loading a slot\<close>

text \<open>
  Modelled from the spec: \<^verbatim>\<open>cSavegame::Save_Game\<close> and \<^verbatim>\<open>Load_Game\<close> are declared in
  savegame.h and implemented elsewhere. Saving fires the \<^verbatim>\<open>save\<close> event, serializes
  the resulting store and embeds it into the record written to the slot. Loading reads
  the record and fires the \<^verbatim>\<open>load\<close> event with the payload deserialized back into a
  store; a record without a payload gives an empty store. Every \<^verbatim>\<open>load\<close> handler is
  passed its own deserialization of the payload. The result of loading is the list of
  handlers with the argument each one was called with, or nothing when the slot holds no
  record. The other parts of the record, and the check of its version, are left out.
\<close>

record cSave =
  save_version :: nat
  save_description :: string
  script_payload :: "json option"

definition SAVEGAME_VERSION :: nat where
  "SAVEGAME_VERSION = 12"

definition Fire_load :: "'h list \<Rightarrow> json \<Rightarrow> ('h \<times> mrb_value) list" where
  "Fire_load handlers payload = map (\<lambda>h. (h, from_json payload)) handlers"

definition Save_Game :: "(mrb_value \<Rightarrow> string) \<Rightarrow> save_handler list \<Rightarrow> (nat \<Rightarrow> cSave option) \<Rightarrow> nat \<Rightarrow> string \<Rightarrow> (nat \<Rightarrow> cSave option)" where
  "Save_Game to_s handlers storage save_slot description =
     storage(save_slot \<mapsto>
       \<lparr>save_version = SAVEGAME_VERSION,
        save_description = description,
        script_payload = Some (to_json to_s (Hash (Fire_save handlers [])))\<rparr>)"

definition Load_Game :: "'h list \<Rightarrow> (nat \<Rightarrow> cSave option) \<Rightarrow> nat \<Rightarrow> ('h \<times> mrb_value) list option" where
  "Load_Game handlers storage save_slot =
     (case storage save_slot of
        None \<Rightarrow> None
      | Some save \<Rightarrow>
          Some (Fire_load handlers
                  (case script_payload save of None \<Rightarrow> JObject [] | Some payload \<Rightarrow> payload)))"

section \<open>Effects of the interpreter calls\<close>

lemma and_then_Inr: "and_then r f = Inr y \<longleftrightarrow> (\<exists>x. r = Inr x \<and> f x = Inr y)"
  by (cases r) (simp_all add: and_then_def)

lemma update_class_Inr:
  "update_class st cls f = Inr st' \<longleftrightarrow>
     (\<exists>c. map_of (classes st) cls = Some c \<and> st' = st\<lparr>classes := AList.update cls (f c) (classes st)\<rparr>)"
  by (auto simp: update_class_def split: option.splits)

lemma update_class_effect:
  assumes "update_class st cls f = Inr st'"
  obtains c where "map_of (classes st) cls = Some c"
    and "map_of (classes st') = (map_of (classes st))(cls \<mapsto> f c)"
    and "heap st' = heap st"
  using assms by (auto simp: update_class_Inr AList.update_conv')

lemma define_methods_effect:
  "define_methods st cls ms = Inr st' \<Longrightarrow>
     heap st' = heap st
     \<and> (\<forall>d. d \<noteq> cls \<longrightarrow> map_of (classes st') d = map_of (classes st) d)
     \<and> (\<forall>c. map_of (classes st) cls = Some c \<longrightarrow>
           map_of (classes st') cls
             = Some (c\<lparr>c_methods := fold (\<lambda>(n, f). AList.update n f) ms (c_methods c)\<rparr>))"
proof (induction ms arbitrary: st)
  case Nil
  then show ?case by simp
next
  case (Cons m ms)
  obtain n f where m: "m = (n, f)" by (cases m)
  from Cons.prems obtain st1 where
    step: "mrb_define_method st cls n f = Inr st1" and rest: "define_methods st1 cls ms = Inr st'"
    by (auto simp: m and_then_Inr)
  from step obtain c where
    c: "map_of (classes st) cls = Some c"
    and k1: "map_of (classes st1) = (map_of (classes st))(cls \<mapsto> c\<lparr>c_methods := AList.update n f (c_methods c)\<rparr>)"
    and h1: "heap st1 = heap st"
    unfolding mrb_define_method_def by (rule update_class_effect)
  from Cons.IH [OF rest] show ?case
    by (simp add: k1 h1 c m)
qed

lemma Init_Level_InrE:
  assumes "Init_Level st p = Inr st'"
  obtains c1 st1 ev st2 lv st3 st4 st5 st6 c2 st7 where
   "mrb_define_class st ''LevelClass'' = Inr (c1, st1)"
   "mrb_module_get st1 ''Eventable'' = Inr ev"
   "mrb_include_module st1 c1 ev = Inr st2"
   "cSavegame_Create_MRuby_Object st2 p = Inr (lv, st3)"
   "mrb_define_const st3 ''Object'' ''Level'' lv = Inr st4"
   "mrb_undef_class_method st4 c1 ''new'' = Inr st5"
   "define_methods st5 c1 level_methods = Inr st6"
   "mrb_define_class_under st6 c1 ''StackEntry'' = Inr (c2, st7)"
   "define_methods st7 c2 stack_entry_methods = Inr st'"
  using assms by (auto simp: Init_Level_def and_then_Inr)

lemma empty_class_sel [simp]:
  "c_consts empty_class = []" "c_methods empty_class = []"
  "c_undef_class_methods empty_class = []" "c_included empty_class = []"
  by (simp_all add: empty_class_def)

lemma define_class_fresh:
  assumes "mrb_define_class_under st outer name = Inr (c, st')"
    and "mrb_const_get st outer name = Inl e"
  shows "c = nested_name outer name \<and> heap st' = heap st \<and>
    (\<exists>x. map_of (classes st @ [(c, empty_class)]) outer = Some x \<and>
      map_of (classes st') =
           (map_of (classes st @ [(c, empty_class)]))
             (outer \<mapsto> x\<lparr>c_consts := AList.update name (ClassV c) (c_consts x)\<rparr>))"
  using assms
  by (auto simp: mrb_define_class_under_def and_then_Inr mrb_define_const_def update_class_Inr
      AList.update_conv' simp del: map_of_append)

lemma Init_Level_summary:
  assumes init: "Init_Level st p = Inr st'"
    and fresh_const: "mrb_const_get st ''Object'' ''LevelClass'' = Inl e"
    and fresh_class: "map_of (classes st) ''LevelClass'' = None"
  obtains cO cL where
    "heap st' = heap st @ [\<lparr>obj_class = ''LevelClass'', obj_iv = [], obj_data = Some p, obj_args = []\<rparr>]"
    "map_of (classes st') ''Object'' = Some cO"
    "map_of (c_consts cO) ''Level'' = Some (ObjRef (length (heap st)))"
    "map_of (c_consts cO) ''LevelClass'' = Some (ClassV ''LevelClass'')"
    "map_of (classes st') ''LevelClass'' = Some cL"
    "c_undef_class_methods cL = [''new'']"
    "c_methods cL = level_methods"
    "map_of (c_consts cL) ''StackEntry'' = Some (ClassV ''LevelClass::StackEntry'')"
    "\<forall>name. name \<noteq> ''Level'' \<longrightarrow> name \<noteq> ''LevelClass'' \<longrightarrow>
       mrb_const_get st' ''Object'' name = mrb_const_get st ''Object'' name"
proof -
  from init obtain c1 st1 ev st2 lv st3 st4 st5 st6 c2 st7 where
    s1: "mrb_define_class st ''LevelClass'' = Inr (c1, st1)" and
    s2: "mrb_module_get st1 ''Eventable'' = Inr ev" and
    s3: "mrb_include_module st1 c1 ev = Inr st2" and
    s4: "cSavegame_Create_MRuby_Object st2 p = Inr (lv, st3)" and
    s5: "mrb_define_const st3 ''Object'' ''Level'' lv = Inr st4" and
    s6: "mrb_undef_class_method st4 c1 ''new'' = Inr st5" and
    s7: "define_methods st5 c1 level_methods = Inr st6" and
    s8: "mrb_define_class_under st6 c1 ''StackEntry'' = Inr (c2, st7)" and
    s9: "define_methods st7 c2 stack_entry_methods = Inr st'"
    by (rule Init_Level_InrE)
  let ?L = "''LevelClass''" and ?O = "''Object''"
  \<comment> \<open>the class is created, with its constant\<close>
  from define_class_fresh [OF s1 [unfolded mrb_define_class_def] fresh_const]
  obtain x0 where
    c1: "c1 = ?L" and
    h1: "heap st1 = heap st" and
    O0: "map_of (classes st) ?O = Some x0" and
    O1: "map_of (classes st1) ?O = Some (x0\<lparr>c_consts := AList.update ?L (ClassV ?L) (c_consts x0)\<rparr>)" and
    L1: "map_of (classes st1) ?L = Some empty_class"
    by (auto simp: nested_name_def fresh_class map_add_def split: option.splits)
  \<comment> \<open>the module is included\<close>
  from s3 obtain
    h2: "heap st2 = heap st1" and
    k2: "map_of (classes st2) = (map_of (classes st1))(?L \<mapsto> empty_class\<lparr>c_included := [ev]\<rparr>)"
    unfolding mrb_include_module_def c1
    by (elim update_class_effect) (auto simp: L1)
  \<comment> \<open>the savegame is wrapped and bound to the constant\<close>
  have get: "mrb_class_get st2 ?L = Inr ?L"
    by (simp add: mrb_class_get_def mrb_class_get_under_def mrb_const_get_def and_then_def
        k2 O1 AList.update_conv')
  from s4 have lv: "lv = ObjRef (length (heap st))" and
    h3: "heap st3 = heap st @ [\<lparr>obj_class = ?L, obj_iv = [], obj_data = Some p, obj_args = []\<rparr>]" and
    k3: "classes st3 = classes st2"
    by (auto simp: cSavegame_Create_MRuby_Object_def Create_MRuby_Object_def get and_then_def
        Data_Wrap_Struct_def h2 h1)
  from s5 obtain
    h4: "heap st4 = heap st3" and
    k4: "map_of (classes st4) = (map_of (classes st3))(?O \<mapsto>
           x0\<lparr>c_consts := AList.update ''Level'' lv (AList.update ?L (ClassV ?L) (c_consts x0))\<rparr>)"
    unfolding mrb_define_const_def
    by (elim update_class_effect) (auto simp: k3 k2 O1)
  \<comment> \<open>the class method new is undefined\<close>
  from s6 obtain
    h5: "heap st5 = heap st4" and
    k5: "map_of (classes st5) = (map_of (classes st4))(?L \<mapsto>
           empty_class\<lparr>c_included := [ev], c_undef_class_methods := [''new'']\<rparr>)"
    unfolding mrb_undef_class_method_def c1
    by (elim update_class_effect) (auto simp: k4 k3 k2)
  \<comment> \<open>the methods are defined\<close>
  from define_methods_effect [OF s7] have
    h6: "heap st6 = heap st5" and
    O6: "map_of (classes st6) ?O = map_of (classes st5) ?O" and
    L6: "map_of (classes st6) ?L = Some (empty_class\<lparr>c_included := [ev],
           c_undef_class_methods := [''new''], c_methods := level_methods\<rparr>)"
    by (simp_all add: c1 k5 empty_class_def level_methods_def)
  \<comment> \<open>the class of the stack entries\<close>
  have no_se: "mrb_const_get st6 ?L ''StackEntry'' = Inl NameError"
    by (simp add: mrb_const_get_def L6 empty_class_def)
  from define_class_fresh [OF s8 [unfolded c1] no_se]
  have c2: "c2 = ''LevelClass::StackEntry''" and
    h7: "heap st7 = heap st6" and
    O7: "map_of (classes st7) ?O = map_of (classes st6) ?O" and
    L7: "map_of (classes st7) ?L = Some (empty_class\<lparr>c_included := [ev],
           c_undef_class_methods := [''new''], c_methods := level_methods,
           c_consts := [(''StackEntry'', ClassV ''LevelClass::StackEntry'')]\<rparr>)"
    by (auto simp: nested_name_def L6 O6 k5 k4 map_add_def empty_class_def split: option.splits)
  from define_methods_effect [OF s9] have
    h9: "heap st' = heap st7" and
    O9: "map_of (classes st') ?O = map_of (classes st7) ?O" and
    L9: "map_of (classes st') ?L = map_of (classes st7) ?L"
    by (simp_all add: c2)
  have O': "map_of (classes st') ?O = Some (x0\<lparr>c_consts :=
        AList.update ''Level'' lv (AList.update ?L (ClassV ?L) (c_consts x0))\<rparr>)"
    by (simp add: O9 O7 O6 k5 k4)
  show ?thesis
  proof (rule that)
    show "\<forall>name. name \<noteq> ''Level'' \<longrightarrow> name \<noteq> ?L \<longrightarrow>
        mrb_const_get st' ?O name = mrb_const_get st ?O name"
      by (simp add: mrb_const_get_def O' O0 AList.update_conv')
    show "heap st' = heap st @ [\<lparr>obj_class = ?L, obj_iv = [], obj_data = Some p, obj_args = []\<rparr>]"
      by (simp add: h9 h7 h6 h5 h4 h3)
    show "map_of (classes st') ?O = Some (x0\<lparr>c_consts :=
        AList.update ''Level'' lv (AList.update ?L (ClassV ?L) (c_consts x0))\<rparr>)"
      by (rule O')
    show "map_of (classes st') ?L = Some (empty_class\<lparr>c_included := [ev],
           c_undef_class_methods := [''new''], c_methods := level_methods,
           c_consts := [(''StackEntry'', ClassV ''LevelClass::StackEntry'')]\<rparr>)"
      by (simp add: L9 L7)
  qed (simp_all add: lv AList.update_conv')
qed

section \<open>The Level constant\<close>

lemma lookups_only_read_classes:
  assumes "classes st' = classes st"
  shows "mrb_const_get st' outer name = mrb_const_get st outer name"
    and "mrb_class_get_under st' outer name = mrb_class_get_under st outer name"
    and "mrb_class_get st' name = mrb_class_get st name"
    and "stack_entry_class st' = stack_entry_class st"
  using assms
  by (simp_all add: mrb_const_get_def mrb_class_get_under_def mrb_class_get_def stack_entry_class_def)

lemma instances_of_cong:
  assumes "length (heap st') = length (heap st)"
    and "\<And>i. i < length (heap st) \<Longrightarrow> obj_class (heap st' ! i) = obj_class (heap st ! i)"
  shows "instances_of st' cls = instances_of st cls"
  using assms by (auto simp: instances_of_def intro: filter_cong)

lemma level_session_cong:
  assumes "classes st' = classes st"
    and "length (heap st') = length (heap st)"
    and "\<And>i. i < length (heap st) \<Longrightarrow> obj_class (heap st' ! i) = obj_class (heap st ! i)"
    and "\<And>i. i < length (heap st) \<Longrightarrow> obj_data (heap st' ! i) = obj_data (heap st ! i)"
    and "level_session a p st"
  shows "level_session a p st'"
  using assms(5) instances_of_cong [of st' st "''LevelClass''", OF assms(2,3)] assms(3,4)
  by (auto simp: level_session_def lookups_only_read_classes [OF assms(1)] class_of_def data_ptr_def
      assms(1,2) split: if_splits)

lemma level_session_iv_set:
  "level_session a p st \<Longrightarrow> level_session a p (mrb_iv_set st obj name v)"
  by (erule level_session_cong [rotated -1])
     (auto simp: mrb_iv_set_def nth_list_update split: mrb_value.splits)

lemma instances_of_append:
  "heap st' = heap st @ [ob] \<Longrightarrow>
   instances_of st' cls
     = instances_of st cls @ (if obj_class ob = cls then [length (heap st)] else [])"
  by (auto simp: instances_of_def nth_append intro: filter_cong)

lemma level_session_alloc:
  assumes "level_session a p st" and "obj_class ob \<noteq> ''LevelClass''"
  shows "level_session a p (st\<lparr>heap := heap st @ [ob]\<rparr>)"
proof -
  let ?st' = "st\<lparr>heap := heap st @ [ob]\<rparr>"
  have k: "classes ?st' = classes st" by simp
  have i: "instances_of ?st' ''LevelClass'' = instances_of st ''LevelClass''"
    using instances_of_append [of ?st' st ob "''LevelClass''"] assms(2) by simp
  from assms(1) show ?thesis
    by (auto simp: level_session_def lookups_only_read_classes [OF k] i class_of_def data_ptr_def
        nth_append split: if_splits)
qed

lemma level_session_obj_new:
  assumes "level_session a p (mruby g)" and "cls \<noteq> ''LevelClass''"
  shows "level_session a p (mruby (snd (mrb_obj_new g cls args)))"
  using assms
  by (auto simp: mrb_obj_new_def Let_def SE_Initialize_def
      intro!: level_session_iv_set level_session_alloc
      split: option.splits cfunc.splits list.splits prod.splits)


lemma level_session_script_new:
  assumes "level_session a p (mruby g)"
  shows "level_session a p (mruby (snd (script_new g cls args)))"
proof (cases "cls = ''LevelClass''")
  case True
  with assms show ?thesis
    by (auto simp: script_new_def level_session_def split: option.splits)
next
  case False
  with assms show ?thesis
    by (auto simp: script_new_def level_session_obj_new split: option.splits)
qed

lemma level_session_no_stack_entry_class:
  "level_session a p st \<Longrightarrow> stack_entry_class st = Inl TypeError"
  by (auto simp: level_session_def stack_entry_class_def mrb_class_get_def mrb_class_get_under_def
      and_then_def split: sum.splits)

lemma level_session_cfunc:
  assumes "level_session a p (mruby g)" and "cfunc_impl to_s f = Some impl"
  shows "level_session a p (mruby (snd (impl g recv args)))"
proof (cases f)
  case F_Pop_Return
  with assms show ?thesis
    using level_session_no_stack_entry_class [OF assms(1)]
    by (auto simp: Pop_Return_def Let_def split: option.splits prod.splits)
next
  case F_Get_Return_Stack
  with assms show ?thesis
    using level_session_no_stack_entry_class [OF assms(1)]
    by (auto simp: Get_Return_Stack_def)
next
  case F_Get_Boundaries
  with assms show ?thesis
    by (auto simp: Get_Boundaries_def level_session_def [of a p "mruby g"]
        intro!: level_session_obj_new [OF assms(1)] split: sum.splits)
next
  case F_Get_Start_Position
  with assms show ?thesis
    by (auto simp: Get_Start_Position_def level_session_def [of a p "mruby g"]
        intro!: level_session_obj_new [OF assms(1)] split: sum.splits)
next
  case F_SE_Initialize
  with assms show ?thesis
    by (auto simp: SE_Initialize_def Let_def intro!: level_session_iv_set split: list.splits)
next
  case F_Push_Return
  with assms show ?thesis
    by (auto simp: Push_Return_def Let_def split: list.splits)
qed (use assms in \<open>auto simp: Get_Author_def Get_Description_def Get_Difficulty_def
      Get_Engine_Version_def Get_Filename_def Get_Music_Filename_def Get_Script_def
      Get_Next_Level_Filename_def Get_Fixed_Hor_Vel_def Clear_Return_def SE_Get_Level_def
      SE_Get_Entry_def\<close>)

lemma level_session_run_step:
  assumes "level_session a p (mruby g)" and "run_step to_s g s = Some g'"
  shows "level_session a p (mruby g')"
proof (cases s)
  case (Script_New cls args)
  with assms show ?thesis
    using level_session_script_new [OF assms(1), of cls args] by auto
next
  case (Script_Call recv name args)
  with assms obtain f impl r where "cfunc_impl to_s f = Some impl" and "impl g recv args = (r, g')"
    by (auto simp: mrb_funcall_def split: option.splits prod.splits)
  with level_session_cfunc [OF assms(1) this(1), of recv args] show ?thesis
    by simp
qed (use assms in auto)

lemma level_session_run:
  "level_session a p (mruby g) \<Longrightarrow> run to_s g steps = Some g' \<Longrightarrow> level_session a p (mruby g')"
proof (induction steps arbitrary: g)
  case Nil
  then show ?case by simp
next
  case (Cons s steps)
  from Cons.prems(2) obtain g1 where
    step: "run_step to_s g s = Some g1" and rest: "run to_s g1 steps = Some g'"
    by (auto split: option.splits)
  from Cons.IH [OF level_session_run_step [OF Cons.prems(1) step] rest] show ?case .
qed


lemma Init_Level_level_session:
  assumes fresh: "before_Init_Level st" and init: "Init_Level st p = Inr st'"
  shows "level_session (length (heap st)) p st'"
proof -
  from fresh obtain e where
    fresh_const: "mrb_const_get st ''Object'' ''LevelClass'' = Inl e" and
    fresh_class: "map_of (classes st) ''LevelClass'' = None" and
    no_instance: "instances_of st ''LevelClass'' = []" and
    rect: "mrb_class_get st ''Rect'' \<noteq> Inr ''LevelClass''" and
    point: "mrb_class_get st ''Point'' \<noteq> Inr ''LevelClass''"
    by (cases "mrb_const_get st ''Object'' ''LevelClass''") (auto simp: before_Init_Level_def)
  from init fresh_const fresh_class obtain cO cL where
    hp: "heap st' = heap st @ [\<lparr>obj_class = ''LevelClass'', obj_iv = [], obj_data = Some p, obj_args = []\<rparr>]" and
    cO: "map_of (classes st') ''Object'' = Some cO" and
    lv: "map_of (c_consts cO) ''Level'' = Some (ObjRef (length (heap st)))" and
    cL: "map_of (classes st') ''LevelClass'' = Some cL" and
    undef: "c_undef_class_methods cL = [''new'']" and
    meths: "c_methods cL = level_methods" and
    others: "\<forall>name. name \<noteq> ''Level'' \<longrightarrow> name \<noteq> ''LevelClass'' \<longrightarrow>
       mrb_const_get st' ''Object'' name = mrb_const_get st ''Object'' name"
    by (rule Init_Level_summary)
  have "mrb_class_get st' ''Rect'' = mrb_class_get st ''Rect''"
    and "mrb_class_get st' ''Point'' = mrb_class_get st ''Point''"
    by (simp_all add: mrb_class_get_def mrb_class_get_under_def others)
  with rect point show ?thesis
    by (simp add: level_session_def mrb_const_get_def cO lv cL undef meths class_of_def
        data_ptr_def hp instances_of_append [OF hp] no_instance)
qed

lemma level_session_calls:
  assumes "level_session a p (mruby g)"
  shows "Level_const g = Inr (ObjRef a)"
    and "class_of (mruby g) (ObjRef a) = Some ''LevelClass''"
    and "data_ptr (mruby g) (ObjRef a) = Some p"
    and "instances_of (mruby g) ''LevelClass'' = [a]"
    and "script_new g ''LevelClass'' args = (Inl NoMethodError, g)"
    and "mrb_funcall to_s g (ObjRef a) name args
      = (case map_of level_methods name of
           None \<Rightarrow> None
         | Some f \<Rightarrow> (case cfunc_impl to_s f of
                        None \<Rightarrow> None
                      | Some impl \<Rightarrow> Some (impl g (ObjRef a) args)))"
  using assms
  by (auto simp: level_session_def Level_const_def script_new_def mrb_funcall_def
      split: option.splits)

lemma Init_Level_boot: "Init_Level boot_state 7 = Inr level_state"
  by code_simp

text \<open>
  C9. \<^verbatim>\<open>Init_Level\<close> runs on an interpreter that knows nothing called
  \<^verbatim>\<open>LevelClass\<close> yet, and the session then goes through any run of script and engine
  steps. At every point of the run the constant \<^verbatim>\<open>Level\<close> still holds the data object
  of \<^verbatim>\<open>LevelClass\<close> that wraps the savegame, that object is the only instance of the
  class on the heap, whatever else has been allocated since, and a script's
  \<^verbatim>\<open>LevelClass.new\<close> raises NoMethodError and creates nothing. Every informational
  accessor called on that object returns the field of the level that is active at the
  time of the call: the string fields as C strings, the numbers as they are, the
  boundaries and the start position as a new \<^verbatim>\<open>Rect\<close> or \<^verbatim>\<open>Point\<close> made from the
  numbers of that level.
\<close>

theorem Level_constant_sole_instance:
  assumes fresh: "before_Init_Level st"
    and init: "Init_Level st p = Inr st'"
    and start: "mruby g0 = st'"
    and run: "run to_s g0 steps = Some g"
  shows "Level_const g = Inr (ObjRef (length (heap st)))
    \<and> class_of (mruby g) (ObjRef (length (heap st))) = Some ''LevelClass''
    \<and> data_ptr (mruby g) (ObjRef (length (heap st))) = Some p
    \<and> instances_of (mruby g) ''LevelClass'' = [length (heap st)]
    \<and> script_new g ''LevelClass'' args = (Inl NoMethodError, g)
    \<and> mrb_funcall to_s g (ObjRef (length (heap st))) ''author'' args
        = Some (Inr (Str (c_str (m_author (pActive_Level g)))), g)
    \<and> mrb_funcall to_s g (ObjRef (length (heap st))) ''description'' args
        = Some (Inr (Str (c_str (m_description (pActive_Level g)))), g)
    \<and> mrb_funcall to_s g (ObjRef (length (heap st))) ''difficulty'' args
        = Some (Inr (Fixnum (m_difficulty (pActive_Level g))), g)
    \<and> mrb_funcall to_s g (ObjRef (length (heap st))) ''engine_version'' args
        = Some (Inr (Fixnum (m_engine_version (pActive_Level g))), g)
    \<and> mrb_funcall to_s g (ObjRef (length (heap st))) ''filename'' args
        = Some (Inr (Str (c_str (m_level_filename (pActive_Level g)))), g)
    \<and> mrb_funcall to_s g (ObjRef (length (heap st))) ''music_filename'' args
        = Some (Inr (Str (c_str (m_musicfile (pActive_Level g)))), g)
    \<and> mrb_funcall to_s g (ObjRef (length (heap st))) ''script'' args
        = Some (Inr (Str (c_str (m_script (pActive_Level g)))), g)
    \<and> mrb_funcall to_s g (ObjRef (length (heap st))) ''next_level_filename'' args
        = Some (Inr (Str (c_str (m_next_level_filename (pActive_Level g)))), g)
    \<and> mrb_funcall to_s g (ObjRef (length (heap st))) ''fixed_horizontal_velocity'' args
        = Some (Inr (Float (m_fixed_camera_hor_vel (pActive_Level g))), g)
    \<and> mrb_funcall to_s g (ObjRef (length (heap st))) ''boundaries'' args
        = Some (case mrb_class_get (mruby g) ''Rect'' of
                  Inl e \<Rightarrow> (Inl e, g)
                | Inr rect \<Rightarrow>
                    mrb_obj_new g rect
                      [Float (m_x (m_camera_limits (pActive_Level g))),
                       Float (m_y (m_camera_limits (pActive_Level g))),
                       Float (m_w (m_camera_limits (pActive_Level g))),
                       Float (m_h (m_camera_limits (pActive_Level g)))])
    \<and> mrb_funcall to_s g (ObjRef (length (heap st))) ''start_position'' args
        = Some (case mrb_class_get (mruby g) ''Point'' of
                  Inl e \<Rightarrow> (Inl e, g)
                | Inr point \<Rightarrow>
                    mrb_obj_new g point
                      [Float (m_player_start_pos_x (pActive_Level g)),
                       Float (m_player_start_pos_y (pActive_Level g))])"
proof -
  have "level_session (length (heap st)) p (mruby g0)"
    using Init_Level_level_session [OF fresh init] by (simp add: start)
  then have session: "level_session (length (heap st)) p (mruby g)"
    using run by (rule level_session_run)
  note calls = level_session_calls [OF session]
  show ?thesis
    by (simp add: calls level_methods_def Get_Author_def Get_Description_def
        Get_Difficulty_def Get_Engine_Version_def Get_Filename_def Get_Music_Filename_def
        Get_Script_def Get_Next_Level_Filename_def Get_Fixed_Hor_Vel_def Get_Boundaries_def
        Get_Start_Position_def)
qed

theorem Level_constant_sole_instance_witness:
  "before_Init_Level boot_state
   \<and> Init_Level boot_state 7 = Inr level_state
   \<and> run (\<lambda>v. []) test_engine test_run = Some after_test_run
   \<and> length (heap (mruby after_test_run)) = 4
   \<and> Level_const after_test_run = Inr (ObjRef 0)
   \<and> data_ptr (mruby after_test_run) (ObjRef 0) = Some 7
   \<and> instances_of (mruby after_test_run) ''LevelClass'' = [0]
   \<and> script_new after_test_run ''LevelClass'' [] = (Inl NoMethodError, after_test_run)
   \<and> mrb_funcall (\<lambda>v. []) test_engine (ObjRef 0) ''author'' []
       = Some (Inr (Str ''Quintus''), test_engine)
   \<and> mrb_funcall (\<lambda>v. []) after_test_run (ObjRef 0) ''author'' []
       = Some (Inr (Str ''Luiji''), after_test_run)
   \<and> mrb_funcall (\<lambda>v. []) after_test_run (ObjRef 0) ''fixed_horizontal_velocity'' []
       = Some (Inr (Float 3), after_test_run)
   \<and> mrb_funcall (\<lambda>v. []) after_test_run (ObjRef 0) ''start_position'' []
       = Some (mrb_obj_new after_test_run ''Point'' [Float 50, Float (- 80)])"
proof -
  have fresh: "before_Init_Level boot_state"
    by code_simp
  have start: "mruby test_engine = level_state"
    by (simp add: test_engine_def)
  have run: "run (\<lambda>v. []) test_engine test_run = Some after_test_run"
    by code_simp
  have none: "run (\<lambda>v. []) test_engine [] = Some test_engine"
    by simp
  have len: "length (heap boot_state) = 0"
    by (simp add: boot_state_def)
  have grown: "length (heap (mruby after_test_run)) = 4"
    by code_simp
  have level: "c_str (m_author (pActive_Level after_test_run)) = ''Luiji''"
    "m_fixed_camera_hor_vel (pActive_Level after_test_run) = 3"
    "m_player_start_pos_x (pActive_Level after_test_run) = 50"
    "m_player_start_pos_y (pActive_Level after_test_run) = - 80"
    "mrb_class_get (mruby after_test_run) ''Point'' = Inr ''Point''"
    "c_str (m_author (pActive_Level test_engine)) = ''Quintus''"
    by code_simp+
  from Level_constant_sole_instance [OF fresh Init_Level_boot start run, of "[]"]
    Level_constant_sole_instance [OF fresh Init_Level_boot start none, of "[]"]
  show ?thesis
    using fresh Init_Level_boot run grown by (simp add: len level)
qed

section \<open>The return stack\<close>

lemma return_stack_lifo:
  "cLevel_Player_Pop_Return
     (cLevel_Player_Push_Return (cLevel_Player_Push_Return stack a x) b y)
     = Some ((b, y), cLevel_Player_Push_Return stack a x)
   \<and> cLevel_Player_Pop_Return (cLevel_Player_Push_Return stack a x) = Some ((a, x), stack)
   \<and> cLevel_Player_Pop_Return [] = None"
  by (simp add: cLevel_Player_Pop_Return_def cLevel_Player_Push_Return_def butlast_append)

lemma Pop_Return_empty:
  "m_return_stack g = [] \<Longrightarrow> Pop_Return g self = (Inr Nil, g)"
  by (simp add: Pop_Return_def cLevel_Player_Pop_Return_def)

lemma Pop_Return_lookup_fails:
  assumes "stack_entry_class (mruby g) = Inl e" and "m_return_stack g \<noteq> []"
  shows "Pop_Return g self = (Inl e, g\<lparr>m_return_stack := butlast (m_return_stack g)\<rparr>)"
  using assms
  by (simp add: Pop_Return_def cLevel_Player_Pop_Return_def split: prod.splits)

lemma Level_is_not_a_class:
  assumes "Init_Level st p = Inr st'"
    and "mrb_const_get st ''Object'' ''LevelClass'' = Inl e"
    and "map_of (classes st) ''LevelClass'' = None"
  shows "mrb_class_get st' ''Level'' = Inl TypeError"
    and "stack_entry_class st' = Inl TypeError"
    and "mrb_class_get_under st' ''LevelClass'' ''StackEntry'' = Inr ''LevelClass::StackEntry''"
proof -
  from assms obtain cO cL where
    cO: "map_of (classes st') ''Object'' = Some cO" and
    lv: "map_of (c_consts cO) ''Level'' = Some (ObjRef (length (heap st)))" and
    cL: "map_of (classes st') ''LevelClass'' = Some cL" and
    se: "map_of (c_consts cL) ''StackEntry'' = Some (ClassV ''LevelClass::StackEntry'')"
    by (rule Init_Level_summary)
  show get: "mrb_class_get st' ''Level'' = Inl TypeError"
    by (simp add: mrb_class_get_def mrb_class_get_under_def mrb_const_get_def and_then_def cO lv)
  show "stack_entry_class st' = Inl TypeError"
    by (simp add: stack_entry_class_def get and_then_def)
  show "mrb_class_get_under st' ''LevelClass'' ''StackEntry'' = Inr ''LevelClass::StackEntry''"
    by (simp add: mrb_class_get_under_def mrb_const_get_def and_then_def cL se)
qed

text \<open>
  C4. On the test engine a script pushes (A, x) and then (B, y); the native stack then
  holds both entries, with (B, y) on top. The script's first \<^verbatim>\<open>Level.pop_return\<close>
  raises TypeError, because \<^verbatim>\<open>Pop_Return\<close> asks for a class called \<^verbatim>\<open>Level\<close> and that
  constant holds the level object; the entry (B, y) has been removed from the native
  stack by then. A pop on an empty stack returns nil and raises nothing.
\<close>

theorem pop_return_after_two_pushes:
  "(case pushed_twice of
      None \<Rightarrow> False
    | Some g \<Rightarrow>
        m_return_stack g = [(''A'', ''x''), (''B'', ''y'')]
        \<and> script_pop_return g = Some (Inl TypeError, g\<lparr>m_return_stack := [(''A'', ''x'')]\<rparr>))
   \<and> script_pop_return test_engine = Some (Inr Nil, test_engine)"
  by code_simp

section \<open>Script handles\<close>

lemma Create_MRuby_Object_effect:
  assumes "Create_MRuby_Object cn st this = Inr (v, st1)"
  obtains c where "mrb_class_get st cn = Inr c"
    and "v = ObjRef (length (heap st))"
    and "heap st1 = heap st @ [\<lparr>obj_class = c, obj_iv = [], obj_data = Some this, obj_args = []\<rparr>]"
    and "classes st1 = classes st"
  using assms
  by (auto simp: Create_MRuby_Object_def and_then_Inr Data_Wrap_Struct_def)

lemma mrb_class_get_classes:
  "classes st1 = classes st \<Longrightarrow> mrb_class_get st1 cn = mrb_class_get st cn"
  by (simp add: mrb_class_get_def mrb_class_get_under_def mrb_const_get_def)

text \<open>
  C8, as the code has it. \<^verbatim>\<open>Create_MRuby_Object\<close> builds a new wrapper on every call.
  When a first call succeeds, a second call in the same session succeeds too; the two
  handles wrap the same native object and have the same class, but they are two
  different script objects, which the identity test tells apart.
\<close>

theorem handles_share_native_not_identity:
  assumes first: "Create_MRuby_Object cn st this = Inr (v1, st1)"
  shows "\<exists>v2 st2. Create_MRuby_Object cn st1 this = Inr (v2, st2)
      \<and> create_twice cn st this = Inr (v1, v2, st2)
      \<and> data_ptr st2 v1 = Some this
      \<and> data_ptr st2 v2 = Some this
      \<and> class_of st2 v1 = class_of st2 v2
      \<and> class_of st2 v1 \<noteq> None
      \<and> \<not> mrb_obj_equal v1 v2"
proof -
  from first obtain c where
    c: "mrb_class_get st cn = Inr c" and
    v1: "v1 = ObjRef (length (heap st))" and
    h1: "heap st1 = heap st @ [\<lparr>obj_class = c, obj_iv = [], obj_data = Some this, obj_args = []\<rparr>]" and
    k1: "classes st1 = classes st"
    by (rule Create_MRuby_Object_effect)
  define v2 where "v2 = ObjRef (Suc (length (heap st)))"
  define st2 where
    "st2 = st1\<lparr>heap := heap st1 @ [\<lparr>obj_class = c, obj_iv = [], obj_data = Some this, obj_args = []\<rparr>]\<rparr>"
  have second: "Create_MRuby_Object cn st1 this = Inr (v2, st2)"
    by (simp add: Create_MRuby_Object_def mrb_class_get_classes [OF k1] c and_then_def
        Data_Wrap_Struct_def h1 v2_def st2_def)
  have twice: "create_twice cn st this = Inr (v1, v2, st2)"
    by (simp add: create_twice_def first second and_then_def)
  have h2: "heap st2 = heap st @ [\<lparr>obj_class = c, obj_iv = [], obj_data = Some this, obj_args = []\<rparr>,
                                   \<lparr>obj_class = c, obj_iv = [], obj_data = Some this, obj_args = []\<rparr>]"
    by (simp add: st2_def h1)
  have "data_ptr st2 v1 = Some this" "data_ptr st2 v2 = Some this"
    "class_of st2 v1 = Some c" "class_of st2 v2 = Some c"
    by (simp_all add: data_ptr_def class_of_def v1 v2_def h2 nth_append)
  moreover have "\<not> mrb_obj_equal v1 v2"
    by (simp add: mrb_obj_equal_def v1 v2_def)
  ultimately show ?thesis
    using second twice by simp
qed

theorem handles_share_native_not_identity_witness:
  "Create_MRuby_Object ''LevelClass'' level_state 7 = Inr (ObjRef 1, once_state)
   \<and> Create_MRuby_Object ''LevelClass'' once_state 7 = Inr (ObjRef 2, twice_state)
   \<and> data_ptr twice_state (ObjRef 1) = Some 7
   \<and> data_ptr twice_state (ObjRef 2) = Some 7
   \<and> class_of twice_state (ObjRef 1) = class_of twice_state (ObjRef 2)
   \<and> class_of twice_state (ObjRef 1) \<noteq> None
   \<and> \<not> mrb_obj_equal (ObjRef 1) (ObjRef 2)"
proof -
  have first: "Create_MRuby_Object ''LevelClass'' level_state 7 = Inr (ObjRef 1, once_state)"
    by code_simp
  have twice: "create_twice ''LevelClass'' level_state 7 = Inr (ObjRef 1, ObjRef 2, twice_state)"
    by code_simp
  from handles_share_native_not_identity [OF first] obtain v2 st2 where
    "Create_MRuby_Object ''LevelClass'' once_state 7 = Inr (v2, st2)"
    "create_twice ''LevelClass'' level_state 7 = Inr (ObjRef 1, v2, st2)"
    "data_ptr st2 (ObjRef 1) = Some 7"
    "data_ptr st2 v2 = Some 7"
    "class_of st2 (ObjRef 1) = class_of st2 v2"
    "class_of st2 (ObjRef 1) \<noteq> None"
    "\<not> mrb_obj_equal (ObjRef 1) v2"
    by blast
  with first twice show ?thesis
    by simp
qed

text \<open>
  C8, as the claim states it, fails: the two handles that two successive calls return
  for the savegame, and for a secret area, are not the same object for a script.
\<close>

theorem handles_not_same_object_counterexample:
  "same_handle_twice ''LevelClass'' level_state 7 = Inr False
   \<and> same_handle_twice ''SecretArea'' secret_state 3 = Inr False"
  by code_simp

section \<open>The save event and the payload\<close>

lemma update_fresh_key: "k \<notin> fst ` set h \<Longrightarrow> AList.update k v h = h @ [(k, v)]"
  by (induction h) auto

lemma fold_hash_set_distinct:
  "distinct (map fst (acc @ kvs)) \<Longrightarrow>
   fold (\<lambda>(k, v) h. mrb_hash_set h k v) kvs acc = acc @ kvs"
proof (induction kvs arbitrary: acc)
  case Nil
  then show ?case by simp
next
  case (Cons kv kvs)
  obtain k v where kv: "kv = (k, v)" by (cases kv)
  from Cons.prems have fresh: "k \<notin> fst ` set acc"
    by (auto simp: kv)
  from Cons.prems have "distinct (map fst ((acc @ [(k, v)]) @ kvs))"
    by (simp add: kv)
  from Cons.IH [OF this] show ?case
    by (simp add: kv mrb_hash_set_def update_fresh_key [OF fresh])
qed

lemma writes_fresh: "distinct (map fst kvs) \<Longrightarrow> writes kvs [] = kvs"
  using fold_hash_set_distinct [of "[]" kvs] by (simp add: writes_def)

lemma round_trip_value:
  "json_primitive v \<Longrightarrow> from_json (to_json to_s v) = v"
proof (induction to_s v rule: to_json.induct)
  case (7 to_s xs)
  then show ?case
    by (simp add: list_all_iff map_idI)
next
  case (8 to_s kvs)
  have step: "(\<lambda>(k, j) h. mrb_hash_set h (Str k) (from_json j)) ((\<lambda>(k, v). (mrb_string to_s k, to_json to_s v)) kv)
      = (\<lambda>(k, v) h. mrb_hash_set h k v) kv" if "kv \<in> set kvs" for kv
  proof -
    obtain k v where kv: "kv = (k, v)" by (cases kv)
    from that "8.prems" obtain s where "k = Str s" and "json_primitive v"
      by (auto simp: kv list_all_iff split: mrb_value.splits)
    moreover from this(2) that have "from_json (to_json to_s v) = v"
      using "8.IH" kv by auto
    ultimately show ?thesis
      by (simp add: kv)
  qed
  have "fold (\<lambda>(k, j) h. mrb_hash_set h (Str k) (from_json j))
          (map (\<lambda>(k, v). (mrb_string to_s k, to_json to_s v)) kvs) []
        = fold (\<lambda>(k, v) h. mrb_hash_set h k v) kvs []"
    unfolding fold_map by (rule fold_cong) (auto simp: step)
  also from "8.prems" have "\<dots> = kvs"
    using fold_hash_set_distinct [of "[]" kvs] by simp
  finally show ?case
    by simp
qed simp_all

text \<open>
  C3. When the store that the \<^verbatim>\<open>save\<close> handlers produce is built only from
  JSON-representable primitives, saving a slot and then loading that slot calls every
  \<^verbatim>\<open>load\<close> handler with a store equal to it.
\<close>

theorem save_then_load_round_trip:
  assumes "json_primitive (Hash (Fire_save handlers []))"
  shows "Load_Game load_handlers (Save_Game to_s handlers storage save_slot description) save_slot
         = Some (map (\<lambda>h. (h, Hash (Fire_save handlers []))) load_handlers)"
  using round_trip_value [OF assms, of to_s]
  by (simp add: Load_Game_def Save_Game_def Fire_load_def)

theorem save_then_load_round_trip_witness:
  "json_primitive (Hash (Fire_save three_handlers []))
   \<and> Load_Game [''restore_switches'', ''restore_position'']
        (Save_Game (\<lambda>v. ''#<Object>'') three_handlers Map.empty 3 ''castle'') 3
       = Some [(''restore_switches'', Hash saved_store), (''restore_position'', Hash saved_store)]"
proof -
  have store: "Fire_save three_handlers [] = saved_store"
    by (simp add: three_handlers_def on_save_def handler_1_def handler_2_def handler_3_def
        writes_def mrb_hash_set_def saved_store_def)
  have prim: "json_primitive (Hash (Fire_save three_handlers []))"
    by (simp add: store saved_store_def)
  from save_then_load_round_trip [OF prim,
      of "[''restore_switches'', ''restore_position'']" "\<lambda>v. ''#<Object>''" Map.empty 3 "''castle''"]
  show ?thesis
    using prim by (simp add: store)
qed

text \<open>
  C6. A value of the store that is not a JSON-representable primitive (a symbol or an
  object) is encoded as the JSON string of its string representation, as the value of
  its own and as the value of an entry of the store, and it comes back from loading as
  that string. Encoding never fails.
\<close>

theorem non_primitive_value_stringified:
  assumes "stringified v"
  shows "to_json to_s v = JString (mrb_string to_s v)
       \<and> from_json (to_json to_s v) = Str (mrb_string to_s v)
       \<and> to_json to_s (Hash (before @ [(k, v)] @ after))
           = JObject (map (\<lambda>(k, v). (mrb_string to_s k, to_json to_s v)) before
                      @ [(mrb_string to_s k, JString (mrb_string to_s v))]
                      @ map (\<lambda>(k, v). (mrb_string to_s k, to_json to_s v)) after)"
proof -
  from assms have "to_json to_s v = JString (mrb_string to_s v)"
    by (cases v) simp_all
  then show ?thesis
    by simp
qed

theorem non_primitive_value_stringified_witness:
  "stringified (ObjRef 0) \<and> stringified (Sym ''red'')
   \<and> to_json (\<lambda>v. ''#<LevelClass>'') (Hash [(Str ''level'', ObjRef 0), (Sym ''switch'', Sym ''red'')])
       = JObject [(''level'', JString ''#<LevelClass>''), (''switch'', JString ''red'')]
   \<and> from_json (to_json (\<lambda>v. ''#<LevelClass>'') (ObjRef 0)) = Str ''#<LevelClass>''
   \<and> from_json (to_json (\<lambda>v. ''#<LevelClass>'') (Sym ''red'')) = Str ''red''"
proof -
  have obj: "stringified (ObjRef 0)" and sym: "stringified (Sym ''red'')"
    by simp_all
  from non_primitive_value_stringified [OF obj, of "\<lambda>v. ''#<LevelClass>''" "[]" "Str ''level''" "[(Sym ''switch'', Sym ''red'')]"]
    non_primitive_value_stringified [OF sym, of "\<lambda>v. ''#<LevelClass>''" "[]" "Sym ''switch''" "[]"]
  show ?thesis
    using obj sym by simp
qed

section \<open>Properties of Std::Enable\<close>

lemma enable_never_disabled:
  "old_pos s = Nil \<Longrightarrow>
   enable api s mass =
     (if mrb_test mass
      then (case set_massive_type api (native s) mass of
              Inl e \<Rightarrow> (Some e, s) | Inr n \<Rightarrow> (None, s\<lparr>native := n\<rparr>))
      else (None, s))"
  by (simp add: enable_def split: sum.splits)

lemma enable_no_mass:
  "enable api s Nil =
     (if mrb_test (old_pos s)
      then (case start_at api (native s) (splat (old_pos s)) of
              Inl e \<Rightarrow> (Some e, s) | Inr n \<Rightarrow> (None, s\<lparr>native := n\<rparr>))
      else (None, s))"
  by (simp add: enable_def split: sum.splits)

text \<open>
  C10. In the \<^verbatim>\<open>Std::Enable\<close> mixin, \<^verbatim>\<open>enable\<close> on a sprite that was never disabled
  (its \<^verbatim>\<open>@old_pos\<close> is still nil) does not call \<^verbatim>\<open>start_at\<close>: without a mass argument
  the call returns normally with the sprite exactly as it was, and with one the position
  is unchanged as long as the massive-type setter does not move sprites. \<^verbatim>\<open>enable\<close>
  without a mass argument never calls the massive-type setter: the massive type is
  unchanged, whether or not the sprite had been disabled, as long as \<^verbatim>\<open>start_at\<close>
  leaves it alone.
\<close>

theorem enable_frame:
  assumes setter_keeps_position:
    "\<And>n m n'. set_massive_type api n m = Inr n' \<Longrightarrow> position api n' = position api n"
  assumes start_at_keeps_massive:
    "\<And>n a n'. start_at api n a = Inr n' \<Longrightarrow> massive_type api n' = massive_type api n"
  shows "(old_pos s = Nil \<longrightarrow> enable api s Nil = (None, s))
       \<and> (old_pos s = Nil \<longrightarrow>
            position api (native (snd (enable api s mass))) = position api (native s))
       \<and> massive_type api (native (snd (enable api t Nil))) = massive_type api (native t)"
proof (intro conjI impI)
  assume "old_pos s = Nil"
  then show "enable api s Nil = (None, s)"
    by (simp add: enable_never_disabled)
next
  assume nil: "old_pos s = Nil"
  show "position api (native (snd (enable api s mass))) = position api (native s)"
  proof (cases "set_massive_type api (native s) mass")
    case (Inl e)
    with nil show ?thesis
      by (simp add: enable_never_disabled)
  next
    case (Inr n)
    with nil setter_keeps_position [OF Inr] show ?thesis
      by (simp add: enable_never_disabled)
  qed
next
  show "massive_type api (native (snd (enable api t Nil))) = massive_type api (native t)"
  proof (cases "start_at api (native t) (splat (old_pos t))")
    case (Inl e)
    then show ?thesis
      by (simp add: enable_no_mass)
  next
    case (Inr n)
    with start_at_keeps_massive [OF Inr] show ?thesis
      by (simp add: enable_no_mass)
  qed
qed

lemma cSprite_setter_keeps_position:
  "cSprite_set_massive_type n m = Inr n' \<Longrightarrow> m_pos n' = m_pos n"
  by (cases m) auto

lemma cSprite_start_at_keeps_massive:
  "cSprite_start_at n a = Inr n' \<Longrightarrow> m_massive_type n' = m_massive_type n"
  by (induction n a rule: cSprite_start_at.induct) auto

theorem enable_frame_witness:
  "disable cSprite_api sprite_at_rest = (None, sprite_disabled)
   \<and> old_pos sprite_at_rest = Nil
   \<and> enable cSprite_api sprite_at_rest Nil = (None, sprite_at_rest)
   \<and> enable cSprite_api sprite_at_rest (Sym ''passive'')
       = (None, sprite_at_rest\<lparr>native := (native sprite_at_rest)\<lparr>m_massive_type := ''passive''\<rparr>\<rparr>)
   \<and> position cSprite_api (native (snd (enable cSprite_api sprite_at_rest (Sym ''passive''))))
       = position cSprite_api (native sprite_at_rest)
   \<and> enable cSprite_api sprite_disabled Nil
       = (None, sprite_disabled\<lparr>native := \<lparr>m_pos = (3, 4), m_start_pos = (3, 4), m_massive_type = ''massive''\<rparr>\<rparr>)
   \<and> massive_type cSprite_api (native (snd (enable cSprite_api sprite_disabled Nil)))
       = massive_type cSprite_api (native sprite_disabled)"
proof -
  have run1: "enable cSprite_api sprite_at_rest (Sym ''passive'')
       = (None, sprite_at_rest\<lparr>native := (native sprite_at_rest)\<lparr>m_massive_type := ''passive''\<rparr>\<rparr>)"
    by (simp add: enable_def cSprite_api_def sprite_at_rest_def new_sprite_def)
  have run2: "enable cSprite_api sprite_disabled Nil
       = (None, sprite_disabled\<lparr>native := \<lparr>m_pos = (3, 4), m_start_pos = (3, 4), m_massive_type = ''massive''\<rparr>\<rparr>)"
    by (simp add: enable_def cSprite_api_def sprite_disabled_def)
  have run0: "disable cSprite_api sprite_at_rest = (None, sprite_disabled)"
    by (simp add: disable_def cSprite_api_def sprite_at_rest_def sprite_disabled_def new_sprite_def)
  have nil: "old_pos sprite_at_rest = Nil"
    by (simp add: sprite_at_rest_def new_sprite_def)
  have "(old_pos sprite_at_rest = Nil \<longrightarrow> enable cSprite_api sprite_at_rest Nil = (None, sprite_at_rest))
       \<and> (old_pos sprite_at_rest = Nil \<longrightarrow>
            position cSprite_api (native (snd (enable cSprite_api sprite_at_rest (Sym ''passive''))))
              = position cSprite_api (native sprite_at_rest))
       \<and> massive_type cSprite_api (native (snd (enable cSprite_api sprite_disabled Nil)))
           = massive_type cSprite_api (native sprite_disabled)"
  proof (rule enable_frame)
    show "\<And>n m n'. set_massive_type cSprite_api n m = Inr n' \<Longrightarrow>
            position cSprite_api n' = position cSprite_api n"
      by (simp add: cSprite_api_def cSprite_setter_keeps_position)
    show "\<And>n a n'. start_at cSprite_api n a = Inr n' \<Longrightarrow>
            massive_type cSprite_api n' = massive_type cSprite_api n"
      by (simp add: cSprite_api_def cSprite_start_at_keeps_massive)
  qed
  then show ?thesis
    using run0 run1 run2 nil by blast
qed

end
